theory Spec2Isabelle
  imports Main
begin

section \<open>Values and strings of the host language\<close>

text \<open>
  The server is an Express application (\<^verbatim>\<open>index.js\<close>) over a MySQL connection pool
  (\<^verbatim>\<open>db.js\<close>), with the token helpers of \<^verbatim>\<open>auth.js\<close> and the validation chains of
  \<^verbatim>\<open>validation.js\<close>. A request body is parsed JSON, so a body field is a JSON value or
  is absent (\<open>undefined\<close>, here \<open>None\<close>). Numbers are restricted to integers. A string
  is the list of the bytes of its UTF-8 encoding.
\<close>

datatype json =
    JNull
  | JBool bool
  | JNum int
  | JStr string
  | JArr "json list"
  | JObj "(string \<times> json) list"

text \<open>JavaScript truthiness of a body field: \<^verbatim>\<open>!v\<close> is \<open>js_falsy v\<close>.\<close>

fun js_falsy :: "json option \<Rightarrow> bool" where
  "js_falsy None = True"
| "js_falsy (Some JNull) = True"
| "js_falsy (Some (JBool b)) = (\<not> b)"
| "js_falsy (Some (JNum n)) = (n = 0)"
| "js_falsy (Some (JStr s)) = (s = [])"
| "js_falsy (Some (JArr xs)) = False"
| "js_falsy (Some (JObj kvs)) = False"

text \<open>
  \<^verbatim>\<open>validStatuses.includes(v)\<close> on an array of string literals: only a string equal to
  one of the elements is included.
\<close>

fun js_includes :: "string list \<Rightarrow> json option \<Rightarrow> bool" where
  "js_includes xs (Some (JStr s)) = (s \<in> set xs)"
| "js_includes xs v = False"

text \<open>The string a validated field is bound to in an SQL parameter.\<close>

fun js_string :: "json option \<Rightarrow> string" where
  "js_string (Some (JStr s)) = s"
| "js_string v = []"

text \<open>The property \<open>k\<close> of a JSON object (\<open>None\<close>: there is none).\<close>

fun json_field :: "string \<Rightarrow> json \<Rightarrow> json option" where
  "json_field k (JObj kvs) = map_of kvs k"
| "json_field k v = None"

text \<open>Truthiness of a field that is a string when present.\<close>

fun str_falsy :: "string option \<Rightarrow> bool" where
  "str_falsy None = True"
| "str_falsy (Some s) = (s = [])"

text \<open>\<^verbatim>\<open>xs.join(sep)\<close>\<close>

fun join :: "string \<Rightarrow> string list \<Rightarrow> string" where
  "join sep [] = []"
| "join sep [x] = x"
| "join sep (x # y # ys) = x @ sep @ join sep (y # ys)"

text \<open>\<^verbatim>\<open>s.replace('_', ' ')\<close> with a string pattern replaces the first occurrence only.\<close>

fun replace_first :: "char \<Rightarrow> char \<Rightarrow> string \<Rightarrow> string" where
  "replace_first a b [] = []"
| "replace_first a b (c # cs) = (if c = a then b # cs else c # replace_first a b cs)"

text \<open>\<^verbatim>\<open>s.startsWith(p)\<close> and \<^verbatim>\<open>s.includes(p)\<close> on strings.\<close>

definition startsWith :: "string \<Rightarrow> string \<Rightarrow> bool" where
  "startsWith s p = (take (length p) s = p)"

fun str_includes :: "string \<Rightarrow> string \<Rightarrow> bool" where
  "str_includes [] p = (p = [])"
| "str_includes (c # cs) p = (startsWith (c # cs) p \<or> str_includes cs p)"

text \<open>
  \<^verbatim>\<open>s.toLowerCase()\<close>, \<^verbatim>\<open>s.toUpperCase()\<close> and \<^verbatim>\<open>s.trim()\<close> follow the Unicode
  case mappings and white space of the JavaScript engine. They are taken from the
  environment of a request (\<open>toLowerCase\<close>, \<open>toUpperCase\<close> and \<open>trim\<close> below), so
  that every theorem holds of the engine's functions, whatever they do outside ASCII.
  The three functions that follow are their restrictions to ASCII text: the case
  mappings of the 26 letters, and the removal of the ASCII white space at both ends.
  Only the sample environment of the examples uses them, on ASCII strings, where they
  agree with the engine's.
\<close>

definition lower_char :: "char \<Rightarrow> char" where
  "lower_char c =
     (case map_of (zip ''ABCDEFGHIJKLMNOPQRSTUVWXYZ'' ''abcdefghijklmnopqrstuvwxyz'') c of
        None \<Rightarrow> c
      | Some d \<Rightarrow> d)"

definition upper_char :: "char \<Rightarrow> char" where
  "upper_char c =
     (case map_of (zip ''abcdefghijklmnopqrstuvwxyz'' ''ABCDEFGHIJKLMNOPQRSTUVWXYZ'') c of
        None \<Rightarrow> c
      | Some d \<Rightarrow> d)"

definition ascii_toLowerCase :: "string \<Rightarrow> string" where
  "ascii_toLowerCase s = map lower_char s"

definition ascii_toUpperCase :: "string \<Rightarrow> string" where
  "ascii_toUpperCase s = map upper_char s"

definition is_space :: "char \<Rightarrow> bool" where
  "is_space c = (c \<in> set [CHR 0x09, CHR 0x0A, CHR 0x0B, CHR 0x0C, CHR 0x0D, CHR '' ''])"

definition ascii_trim :: "string \<Rightarrow> string" where
  "ascii_trim s = rev (dropWhile is_space (rev (dropWhile is_space s)))"

section \<open>The persistent store\<close>

text \<open>
  One list of rows per table of \<^verbatim>\<open>initDB\<close>. The four application tables share the
  columns the handlers read and write; the type-specific form columns are kept together
  as the submitted form object. A column that may hold \<open>NULL\<close> is an option (\<open>None\<close>
  is \<open>NULL\<close>): \<^verbatim>\<open>db.js\<close> declares \<open>status\<close> as \<open>NOT NULL\<close> for the visa table only, and
  \<open>shipping_carrier\<close> is the column \<^verbatim>\<open>add-shipping-carrier.js\<close> adds to the four tables.
  \<open>user_id\<close> is named by the travel-pass \<^verbatim>\<open>INSERT\<close> of \<^verbatim>\<open>index.js\<close> only; the table
  of \<^verbatim>\<open>db.js\<close> has no such column, and a database with that table rejects the statement.
  For the statements of the handlers, column types, lengths and \<open>NOT NULL\<close> checks of
  the database are not modelled: a statement the database rejects is a fault of that
  query (see \<open>db_fault\<close> below). The
  two \<open>UNIQUE\<close> keys are modelled. The database's comparison of strings is modelled as
  equality.
\<close>

record user =
  login_id :: nat
  username :: string
  password :: string
  firstname :: string
  lastname :: string
  login_created_at :: nat

record application =
  app_id :: nat
  user_id :: "nat option"
  user_name :: string
  status :: "string option"
  status_history :: "string option"
  tracking_number :: "string option"
  shipping_carrier :: "string option"
  form :: "(string \<times> json) list"
  created_at :: nat
  updated_at :: nat

record conversation =
  conv_id :: nat
  session_id :: string
  conv_user_name :: string
  user_email :: string
  conv_status :: string
  last_message_at :: nat
  conv_created_at :: nat

record message =
  msg_id :: nat
  conversation_id :: nat
  sender_type :: string
  sender_name :: "string option"
  message_text :: string
  msg_created_at :: nat

record store =
  login :: "user list"
  visa_applications :: "application list"
  marriage_applications :: "application list"
  birth_certificate_applications :: "application list"
  travel_pass_applications :: "application list"
  chat_conversations :: "conversation list"
  chat_messages :: "message list"

definition empty_store :: store where
  "empty_store =
     \<lparr>login = [], visa_applications = [], marriage_applications = [],
      birth_certificate_applications = [], travel_pass_applications = [],
      chat_conversations = [], chat_messages = []\<rparr>"

text \<open>
  \<open>AUTO_INCREMENT\<close>: the id of an inserted row is above every id of the table; the
  model takes the least such id.
\<close>

definition insertId :: "nat list \<Rightarrow> nat" where
  "insertId ids = Suc (fold max ids 0)"

text \<open>\<^verbatim>\<open>SELECT ... WHERE id = ?\<close> and \<^verbatim>\<open>UPDATE ... WHERE id = ?\<close> on an application table.\<close>

definition select_by_id :: "application list \<Rightarrow> nat \<Rightarrow> application list" where
  "select_by_id rows i = filter (\<lambda>r. app_id r = i) rows"

definition update_by_id ::
  "(application \<Rightarrow> application) \<Rightarrow> nat \<Rightarrow> application list \<Rightarrow> application list" where
  "update_by_id f i rows = map (\<lambda>r. if app_id r = i then f r else r) rows"

text \<open>\<^verbatim>\<open>ORDER BY created_at DESC\<close> (ties are left in the order of a stable sort).\<close>

definition order_desc :: "application list \<Rightarrow> application list" where
  "order_desc rows = rev (sort_key created_at rows)"

section \<open>Environment of a request\<close>

text \<open>
  What a handler takes from outside the repository: the configuration read at start-up,
  the clocks, the functions of the engine and of the libraries (the string methods
  \<^verbatim>\<open>toLowerCase\<close>, \<^verbatim>\<open>toUpperCase\<close> and \<^verbatim>\<open>trim\<close>, \<^verbatim>\<open>JSON\<close>, \<^verbatim>\<open>jsonwebtoken\<close>,
  \<^verbatim>\<open>bcrypt\<close>, the \<^verbatim>\<open>express-validator\<close> chains, the formatting of a bound value by
  \<^verbatim>\<open>mysql2\<close>) and the behaviour of the services during this request.
  \<open>db_fault = Some n\<close> says that the \<open>n\<close>-th \<^verbatim>\<open>pool.query\<close> of the request (counted from
  0) throws; \<open>mail_fails\<close> that \<^verbatim>\<open>sgMail.send\<close> rejects; \<open>barcode_fails\<close> that
  \<^verbatim>\<open>bwipjs.toBuffer\<close> rejects.
\<close>

record claims =
  claim_id :: nat
  claim_username :: string
  isAdmin :: bool

record signup_body =
  su_username :: string
  su_password :: string
  su_firstName :: string
  su_lastName :: string

record login_body =
  li_username :: string
  li_password :: string

record env =
  SENDGRID_API_KEY :: bool
  CONTACT_FROM :: string
  now_iso :: string
  db_now :: nat
  db_fault :: "nat option"
  mail_fails :: bool
  barcode_fails :: bool
  JSON_parse :: "string \<Rightarrow> json option"
  JSON_stringify :: "json \<Rightarrow> string"
  jwt_sign :: "claims \<Rightarrow> string"
  jwt_verify :: "string \<Rightarrow> claims option"
  bcrypt_hash :: "string \<Rightarrow> string"
  bcrypt_compare :: "string \<Rightarrow> string \<Rightarrow> bool"
  signup_chain :: "signup_body \<Rightarrow> string list \<times> signup_body"
  login_chain :: "login_body \<Rightarrow> string list \<times> login_body"
  visa_chain :: "(string \<times> json) list \<Rightarrow> string list \<times> (string \<times> json) list"
  toLowerCase :: "string \<Rightarrow> string"
  toUpperCase :: "string \<Rightarrow> string"
  trim :: "string \<Rightarrow> string"
  update_with_carrier ::
    "string \<Rightarrow> json \<Rightarrow> string \<Rightarrow> nat \<Rightarrow> application list \<Rightarrow> application list option"

section \<open>Responses and outcomes\<close>

record mail =
  mail_to :: string
  mail_from :: string
  mail_subject :: string

record user_info =
  info_id :: nat
  info_username :: string
  info_fullName :: string
  info_isAdmin :: bool

record conv_info =
  cv_id :: nat
  cv_session_id :: string
  cv_user_name :: string
  cv_user_email :: string
  cv_status :: string
  cv_times :: "(nat \<times> nat) option"

datatype body =
    ErrorBody string
  | Success
  | Created nat
  | StatusChanged nat string "string option"
  | TrackingSet nat string "json option"
  | CarrierSet "json option"
  | Rows "application list"
  | Row application
  | Pdf application
  | Session string user_info
  | ChatBody conv_info "message list"

record response =
  http_status :: nat
  body :: body

record outcome =
  new_store :: store
  reply :: response
  sent :: "mail list"

definition respond :: "store \<Rightarrow> nat \<Rightarrow> body \<Rightarrow> outcome" where
  "respond s c b = \<lparr>new_store = s, reply = \<lparr>http_status = c, body = b\<rparr>, sent = []\<rparr>"

text \<open>
  \<^verbatim>\<open>await sgMail.send(m)\<close> inside its own \<^verbatim>\<open>try/catch\<close>, under \<^verbatim>\<open>if (SENDGRID_API_KEY)\<close>:
  the mails that were delivered. (The HTML part of a mail is not modelled.)
\<close>

definition send_mail :: "env \<Rightarrow> mail \<Rightarrow> mail list" where
  "send_mail e m = (if SENDGRID_API_KEY e then (if mail_fails e then [] else [m]) else [])"

section \<open>Authentication middleware (\<^verbatim>\<open>auth.js\<close>)\<close>

record headers =
  authorization :: "string option"
  cookie_token :: "string option"

definition generateToken :: "env \<Rightarrow> claims \<Rightarrow> string" where
  "generateToken e payload = jwt_sign e payload"

definition verifyToken :: "env \<Rightarrow> string \<Rightarrow> claims option" where
  "verifyToken e token = jwt_verify e token"

text \<open>
  \<^verbatim>\<open>authMiddleware\<close>: the bearer token of the \<^verbatim>\<open>Authorization\<close> header, else the
  \<^verbatim>\<open>token\<close> cookie. \<open>Inl\<close> is the response that ends the request, \<open>Inr\<close> is
  \<^verbatim>\<open>req.user\<close> for the next handler.
\<close>

definition authMiddleware :: "env \<Rightarrow> headers \<Rightarrow> response + claims" where
  "authMiddleware e h =
     (let token =
        (case authorization h of
           None \<Rightarrow> cookie_token h
         | Some authHeader \<Rightarrow>
             if authHeader \<noteq> [] \<and> startsWith authHeader ''Bearer ''
             then Some (drop 7 authHeader) else cookie_token h)
      in case token of
           None \<Rightarrow> Inl \<lparr>http_status = 401, body = ErrorBody ''Authentication required''\<rparr>
         | Some t \<Rightarrow>
             if t = []
             then Inl \<lparr>http_status = 401, body = ErrorBody ''Authentication required''\<rparr>
             else (case verifyToken e t of
                     None \<Rightarrow> Inl \<lparr>http_status = 401, body = ErrorBody ''Invalid or expired token''\<rparr>
                   | Some decoded \<Rightarrow> Inr decoded))"

definition adminMiddleware :: "claims \<Rightarrow> response option" where
  "adminMiddleware usr =
     (if \<not> isAdmin usr
      then Some \<lparr>http_status = 403, body = ErrorBody ''Admin access required''\<rparr>
      else None)"

text \<open>
  A route behind \<^verbatim>\<open>authMiddleware\<close>, and one behind \<^verbatim>\<open>adminMiddleware\<close> as well.
  What \<^verbatim>\<open>app.use\<close> puts before every route (\<^verbatim>\<open>helmet\<close>, CORS, the JSON body parser,
  the cookie parser, the rate limiters) is not modelled: a request is one that has
  reached its route, with its body parsed.
\<close>

definition with_auth :: "env \<Rightarrow> store \<Rightarrow> headers \<Rightarrow> (claims \<Rightarrow> outcome) \<Rightarrow> outcome" where
  "with_auth e s h handler =
     (case authMiddleware e h of
        Inl r \<Rightarrow> \<lparr>new_store = s, reply = r, sent = []\<rparr>
      | Inr usr \<Rightarrow> handler usr)"

definition with_admin :: "env \<Rightarrow> store \<Rightarrow> headers \<Rightarrow> (claims \<Rightarrow> outcome) \<Rightarrow> outcome" where
  "with_admin e s h handler =
     with_auth e s h (\<lambda>usr.
       case adminMiddleware usr of
         Some r \<Rightarrow> \<lparr>new_store = s, reply = r, sent = []\<rparr>
       | None \<Rightarrow> handler usr)"

section \<open>Status updates (\<^verbatim>\<open>PUT /api/<type>-applications/:id/status\<close>)\<close>

text \<open>
  The path parameter \<^verbatim>\<open>:id\<close> is taken as the number the database compares the key
  with. \<^verbatim>\<open>xs.push(x)\<close> on a value that is not an array is a \<^verbatim>\<open>TypeError\<close> (\<open>None\<close>).
\<close>

fun js_push :: "json \<Rightarrow> json \<Rightarrow> json option" where
  "js_push (JArr xs) x = Some (JArr (xs @ [x]))"
| "js_push v x = None"

definition server_error :: "store \<Rightarrow> outcome" where
  "server_error s = respond s 500 (ErrorBody ''Server error'')"

subsection \<open>Visa\<close>

definition visa_validStatuses :: "string list" where
  "visa_validStatuses = [''pending'', ''under_review'', ''approved'', ''denied'', ''shipped'']"

text \<open>
  The history read from the \<open>status_history\<close> text: empty when the column is \<open>NULL\<close> or
  the empty string, and when \<^verbatim>\<open>JSON.parse\<close> throws.
\<close>

definition visa_read_history :: "env \<Rightarrow> string option \<Rightarrow> json" where
  "visa_read_history e h =
     (case h of
        None \<Rightarrow> JArr []
      | Some txt \<Rightarrow>
          if txt = [] then JArr []
          else (case JSON_parse e txt of None \<Rightarrow> JArr [] | Some parsed \<Rightarrow> parsed))"

text \<open>The JSON value of a column that the driver returns: \<open>null\<close> for \<open>NULL\<close>.\<close>

fun column_value :: "string option \<Rightarrow> json" where
  "column_value None = JNull"
| "column_value (Some v) = JStr v"

definition visa_history_entry :: "string \<Rightarrow> string \<Rightarrow> string \<Rightarrow> string option \<Rightarrow> json" where
  "visa_history_entry st changedBy changedAt previousStatus =
     JObj [(''status'', JStr st), (''changedBy'', JStr changedBy),
           (''changedAt'', JStr changedAt), (''previousStatus'', column_value previousStatus)]"

definition visa_status_mail :: "env \<Rightarrow> application \<Rightarrow> string \<Rightarrow> mail" where
  "visa_status_mail e application st =
     \<lparr>mail_to = user_name application, mail_from = CONTACT_FROM e,
      mail_subject = ''Visa Application Status Update - ''
                     @ toUpperCase e (replace_first CHR ''_'' CHR '' '' st)\<rparr>"

definition visa_status_handler ::
  "env \<Rightarrow> store \<Rightarrow> claims \<Rightarrow> nat \<Rightarrow> json option \<Rightarrow> outcome" where
  "visa_status_handler e s usr ident st =
     (if js_falsy st \<or> \<not> js_includes visa_validStatuses st
      then respond s 400
             (ErrorBody (''Invalid status. Must be one of: '' @ join '', '' visa_validStatuses))
      else if db_fault e = Some 0 then server_error s
      else
        (case select_by_id (visa_applications s) ident of
           [] \<Rightarrow> respond s 404 (ErrorBody ''Application not found'')
         | application # _ \<Rightarrow>
             (let oldStatus = status application in
              case js_push (visa_read_history e (status_history application))
                     (visa_history_entry (js_string st) (claim_username usr) (now_iso e) oldStatus) of
                None \<Rightarrow> server_error s
              | Some statusHistory \<Rightarrow>
                  if db_fault e = Some 1 then server_error s
                  else
                    \<lparr>new_store = s\<lparr>visa_applications :=
                        update_by_id
                          (\<lambda>r. r\<lparr>status := Some (js_string st),
                                 status_history := Some (JSON_stringify e statusHistory),
                                 updated_at := db_now e\<rparr>)
                          ident (visa_applications s)\<rparr>,
                     reply = \<lparr>http_status = 200,
                              body = StatusChanged (app_id application) (js_string st) oldStatus\<rparr>,
                     sent = send_mail e (visa_status_mail e application (js_string st))\<rparr>)))"

definition visa_status_route ::
  "env \<Rightarrow> store \<Rightarrow> headers \<Rightarrow> nat \<Rightarrow> json option \<Rightarrow> outcome" where
  "visa_status_route e s h ident st =
     with_admin e s h (\<lambda>usr. visa_status_handler e s usr ident st)"

subsection \<open>Marriage and birth certificate\<close>

definition marriage_validStatuses :: "string list" where
  "marriage_validStatuses = [''pending'', ''under_review'', ''approved'', ''denied'', ''shipped'']"

definition marriage_status_handler ::
  "env \<Rightarrow> store \<Rightarrow> claims \<Rightarrow> nat \<Rightarrow> json option \<Rightarrow> outcome" where
  "marriage_status_handler e s usr ident st =
     (if js_falsy st \<or> \<not> js_includes marriage_validStatuses st
      then respond s 400 (ErrorBody ''Invalid status'')
      else if db_fault e = Some 0 then server_error s
      else
        \<lparr>new_store = s\<lparr>marriage_applications :=
            update_by_id (\<lambda>r. r\<lparr>status := Some (js_string st), updated_at := db_now e\<rparr>)
              ident (marriage_applications s)\<rparr>,
         reply = \<lparr>http_status = 200, body = Success\<rparr>,
         sent = []\<rparr>)"

definition marriage_status_route ::
  "env \<Rightarrow> store \<Rightarrow> headers \<Rightarrow> nat \<Rightarrow> json option \<Rightarrow> outcome" where
  "marriage_status_route e s h ident st =
     with_admin e s h (\<lambda>usr. marriage_status_handler e s usr ident st)"

definition birth_validStatuses :: "string list" where
  "birth_validStatuses = [''pending'', ''under_review'', ''approved'', ''denied'', ''shipped'']"

definition birth_status_handler ::
  "env \<Rightarrow> store \<Rightarrow> claims \<Rightarrow> nat \<Rightarrow> json option \<Rightarrow> outcome" where
  "birth_status_handler e s usr ident st =
     (if js_falsy st \<or> \<not> js_includes birth_validStatuses st
      then respond s 400 (ErrorBody ''Invalid status'')
      else if db_fault e = Some 0 then server_error s
      else
        \<lparr>new_store = s\<lparr>birth_certificate_applications :=
            update_by_id (\<lambda>r. r\<lparr>status := Some (js_string st), updated_at := db_now e\<rparr>)
              ident (birth_certificate_applications s)\<rparr>,
         reply = \<lparr>http_status = 200, body = Success\<rparr>,
         sent = []\<rparr>)"

definition birth_status_route ::
  "env \<Rightarrow> store \<Rightarrow> headers \<Rightarrow> nat \<Rightarrow> json option \<Rightarrow> outcome" where
  "birth_status_route e s h ident st =
     with_admin e s h (\<lambda>usr. birth_status_handler e s usr ident st)"

subsection \<open>Travel pass\<close>

definition travel_validStatuses :: "string list" where
  "travel_validStatuses =
     [''pending'', ''under_review'', ''approved'', ''denied'', ''issued'', ''collected'']"

text \<open>
  \<^verbatim>\<open>current[0]?.status_history ? JSON.parse(current[0].status_history) : []\<close>, inside the
  handler's \<^verbatim>\<open>try\<close>: \<open>None\<close> when \<^verbatim>\<open>JSON.parse\<close> throws.
\<close>

definition travel_read_history :: "env \<Rightarrow> application list \<Rightarrow> json option" where
  "travel_read_history e current =
     (case current of
        [] \<Rightarrow> Some (JArr [])
      | row # _ \<Rightarrow>
          (case status_history row of
             None \<Rightarrow> Some (JArr [])
           | Some txt \<Rightarrow> if txt = [] then Some (JArr []) else JSON_parse e txt))"

definition travel_history_entry :: "string \<Rightarrow> string \<Rightarrow> json" where
  "travel_history_entry st timestamp = JObj [(''status'', JStr st), (''timestamp'', JStr timestamp)]"

definition travel_status_handler ::
  "env \<Rightarrow> store \<Rightarrow> claims \<Rightarrow> nat \<Rightarrow> json option \<Rightarrow> outcome" where
  "travel_status_handler e s usr ident st =
     (if \<not> js_includes travel_validStatuses st
      then respond s 400 (ErrorBody ''Invalid status'')
      else if db_fault e = Some 0 then server_error s
      else
        (case travel_read_history e (select_by_id (travel_pass_applications s) ident) of
           None \<Rightarrow> server_error s
         | Some parsed \<Rightarrow>
             (case js_push parsed (travel_history_entry (js_string st) (now_iso e)) of
                None \<Rightarrow> server_error s
              | Some history \<Rightarrow>
                  if db_fault e = Some 1 then server_error s
                  else
                    \<lparr>new_store = s\<lparr>travel_pass_applications :=
                        update_by_id
                          (\<lambda>r. r\<lparr>status := Some (js_string st),
                                 status_history := Some (JSON_stringify e history),
                                 updated_at := db_now e\<rparr>)
                          ident (travel_pass_applications s)\<rparr>,
                     reply = \<lparr>http_status = 200, body = Success\<rparr>,
                     sent = []\<rparr>)))"

definition travel_status_route ::
  "env \<Rightarrow> store \<Rightarrow> headers \<Rightarrow> nat \<Rightarrow> json option \<Rightarrow> outcome" where
  "travel_status_route e s h ident st =
     with_admin e s h (\<lambda>usr. travel_status_handler e s usr ident st)"

section \<open>Accounts (\<^verbatim>\<open>POST /api/signup\<close>, \<^verbatim>\<open>POST /api/login\<close>)\<close>

text \<open>
  \<^verbatim>\<open>handleValidationErrors\<close>: the first message of the chain's errors ends the request
  with 400. The chains themselves are \<^verbatim>\<open>express-validator\<close> objects: each gives the
  error messages of a body and the body after its sanitizers.
\<close>

definition handleValidationErrors :: "string list \<Rightarrow> response option" where
  "handleValidationErrors errors =
     (case errors of
        [] \<Rightarrow> None
      | msg # _ \<Rightarrow> Some \<lparr>http_status = 400, body = ErrorBody msg\<rparr>)"

definition signup_handler :: "env \<Rightarrow> store \<Rightarrow> signup_body \<Rightarrow> outcome" where
  "signup_handler e s b =
     (let name = toLowerCase e (su_username b);
          hash = bcrypt_hash e (su_password b)
      in if db_fault e = Some 0 then server_error s
         else if name \<in> set (map username (login s))
         then respond s 409 (ErrorBody ''Email already registered'')
         else
           (let newId = insertId (map login_id (login s)) in
            \<lparr>new_store = s\<lparr>login := login s @
                 [\<lparr>login_id = newId, username = name, password = hash,
                   firstname = su_firstName b, lastname = su_lastName b,
                   login_created_at = db_now e\<rparr>]\<rparr>,
             reply = \<lparr>http_status = 200,
                      body = Session
                        (generateToken e \<lparr>claim_id = newId, claim_username = name, isAdmin = False\<rparr>)
                        \<lparr>info_id = newId, info_username = name,
                         info_fullName = su_firstName b @ '' '' @ su_lastName b,
                         info_isAdmin = False\<rparr>\<rparr>,
             sent = []\<rparr>))"

definition signup_route :: "env \<Rightarrow> store \<Rightarrow> signup_body \<Rightarrow> outcome" where
  "signup_route e s b =
     (case handleValidationErrors (fst (signup_chain e b)) of
        Some r \<Rightarrow> \<lparr>new_store = s, reply = r, sent = []\<rparr>
      | None \<Rightarrow> signup_handler e s (snd (signup_chain e b)))"

definition login_handler :: "env \<Rightarrow> store \<Rightarrow> login_body \<Rightarrow> outcome" where
  "login_handler e s b =
     (if db_fault e = Some 0 then server_error s
      else
        (case filter (\<lambda>u. username u = toLowerCase e (li_username b)) (login s) of
           [] \<Rightarrow> respond s 401 (ErrorBody ''Invalid credentials'')
         | usr # _ \<Rightarrow>
             if \<not> bcrypt_compare e (li_password b) (password usr)
             then respond s 401 (ErrorBody ''Invalid credentials'')
             else
               (let admin = str_includes (username usr) ''admin'' in
                respond s 200
                  (Session
                     (generateToken e
                        \<lparr>claim_id = login_id usr, claim_username = username usr, isAdmin = admin\<rparr>)
                     \<lparr>info_id = login_id usr, info_username = username usr,
                      info_fullName = firstname usr @ '' '' @ lastname usr,
                      info_isAdmin = admin\<rparr>))))"

definition login_route :: "env \<Rightarrow> store \<Rightarrow> login_body \<Rightarrow> outcome" where
  "login_route e s b =
     (case handleValidationErrors (fst (login_chain e b)) of
        Some r \<Rightarrow> \<lparr>new_store = s, reply = r, sent = []\<rparr>
      | None \<Rightarrow> login_handler e s (snd (login_chain e b)))"

section \<open>Submitting applications (\<^verbatim>\<open>POST /api/<type>-applications\<close>)\<close>

text \<open>
  The inserted row. The visa and travel-pass statements write the literal \<open>'pending'\<close>;
  the marriage and birth-certificate statements leave the column to its
  \<open>DEFAULT 'pending'\<close> of \<^verbatim>\<open>db.js\<close>. The other columns of the handlers' statements
  default to \<open>NULL\<close>.
\<close>

definition new_application ::
  "env \<Rightarrow> application list \<Rightarrow> nat option \<Rightarrow> string \<Rightarrow> (string \<times> json) list \<Rightarrow> application" where
  "new_application e rows uid name formData =
     \<lparr>app_id = insertId (map app_id rows), user_id = uid, user_name = name,
      status = Some ''pending'', status_history = None, tracking_number = None,
      shipping_carrier = None, form = formData,
      created_at = db_now e, updated_at = db_now e\<rparr>"

definition visa_create_handler ::
  "env \<Rightarrow> store \<Rightarrow> claims \<Rightarrow> (string \<times> json) list \<Rightarrow> outcome" where
  "visa_create_handler e s usr formData =
     (if db_fault e = Some 0 then server_error s
      else
        (let row = new_application e (visa_applications s) None
                     (toLowerCase e (claim_username usr)) formData in
         \<lparr>new_store = s\<lparr>visa_applications := visa_applications s @ [row]\<rparr>,
          reply = \<lparr>http_status = 200, body = Created (app_id row)\<rparr>,
          sent = []\<rparr>))"

definition visa_create_route ::
  "env \<Rightarrow> store \<Rightarrow> headers \<Rightarrow> (string \<times> json) list \<Rightarrow> outcome" where
  "visa_create_route e s h formData =
     with_auth e s h (\<lambda>usr.
       case handleValidationErrors (fst (visa_chain e formData)) of
         Some r \<Rightarrow> \<lparr>new_store = s, reply = r, sent = []\<rparr>
       | None \<Rightarrow> visa_create_handler e s usr (snd (visa_chain e formData)))"

definition marriage_create_handler ::
  "env \<Rightarrow> store \<Rightarrow> claims \<Rightarrow> (string \<times> json) list \<Rightarrow> outcome" where
  "marriage_create_handler e s usr formData =
     (if db_fault e = Some 0 then server_error s
      else
        (let row = new_application e (marriage_applications s) None
                     (toLowerCase e (claim_username usr)) formData in
         \<lparr>new_store = s\<lparr>marriage_applications := marriage_applications s @ [row]\<rparr>,
          reply = \<lparr>http_status = 200, body = Created (app_id row)\<rparr>,
          sent = []\<rparr>))"

definition marriage_create_route ::
  "env \<Rightarrow> store \<Rightarrow> headers \<Rightarrow> (string \<times> json) list \<Rightarrow> outcome" where
  "marriage_create_route e s h formData =
     with_auth e s h (\<lambda>usr. marriage_create_handler e s usr formData)"

definition birth_create_handler ::
  "env \<Rightarrow> store \<Rightarrow> claims \<Rightarrow> (string \<times> json) list \<Rightarrow> outcome" where
  "birth_create_handler e s usr formData =
     (if db_fault e = Some 0 then server_error s
      else
        (let row = new_application e (birth_certificate_applications s) None
                     (toLowerCase e (claim_username usr)) formData in
         \<lparr>new_store = s\<lparr>birth_certificate_applications :=
             birth_certificate_applications s @ [row]\<rparr>,
          reply = \<lparr>http_status = 200, body = Created (app_id row)\<rparr>,
          sent = []\<rparr>))"

definition birth_create_route ::
  "env \<Rightarrow> store \<Rightarrow> headers \<Rightarrow> (string \<times> json) list \<Rightarrow> outcome" where
  "birth_create_route e s h formData =
     with_auth e s h (\<lambda>usr. birth_create_handler e s usr formData)"

definition travel_create_handler ::
  "env \<Rightarrow> store \<Rightarrow> claims \<Rightarrow> (string \<times> json) list \<Rightarrow> outcome" where
  "travel_create_handler e s usr formData =
     (if db_fault e = Some 0 then respond s 500 (ErrorBody ''Failed to submit application'')
      else
        (let row = new_application e (travel_pass_applications s) (Some (claim_id usr))
                     (claim_username usr) formData in
         \<lparr>new_store = s\<lparr>travel_pass_applications := travel_pass_applications s @ [row]\<rparr>,
          reply = \<lparr>http_status = 200, body = Created (app_id row)\<rparr>,
          sent = []\<rparr>))"

definition travel_create_route ::
  "env \<Rightarrow> store \<Rightarrow> headers \<Rightarrow> (string \<times> json) list \<Rightarrow> outcome" where
  "travel_create_route e s h formData =
     with_auth e s h (\<lambda>usr. travel_create_handler e s usr formData)"

section \<open>Tracking numbers (\<^verbatim>\<open>PUT /api/<type>-applications/:id/tracking\<close>)\<close>

text \<open>
  \<open>trackingNumber\<close> and \<open>carrier\<close> are any JSON values. The handlers test
  \<^verbatim>\<open>typeof trackingNumber\<close>; \<open>carrier\<close> is bound to the \<^verbatim>\<open>UPDATE\<close> as
  \<^verbatim>\<open>carrier || null\<close> (\<open>or_null carrier\<close>, where \<open>None\<close> is \<open>null\<close>) with no test of
  its type.
\<close>

fun js_is_string :: "json option \<Rightarrow> bool" where
  "js_is_string (Some (JStr s)) = True"
| "js_is_string v = False"

definition or_null :: "json option \<Rightarrow> json option" where
  "or_null v = (if js_falsy v then None else v)"

text \<open>
  \<^verbatim>\<open>UPDATE <table> SET tracking_number = ?, shipping_carrier = ?, updated_at = NOW() WHERE id = ?\<close>
  with the values \<^verbatim>\<open>[trackingNumber.trim(), carrier || null, id]\<close>. \<^verbatim>\<open>mysql2\<close> writes a
  bound string as a quoted literal and \<open>null\<close> as \<open>NULL\<close>: the statement then assigns
  the three columns of the rows with that id (\<open>set_tracking\<close>). Any other bound value
  is written into the text of the statement in the driver's own way: a number or a
  boolean as a literal, an array as a comma-separated list, an object as a
  comma-separated list of \<^verbatim>\<open>`key` = value\<close> pairs, which the database reads as the
  value of \<open>shipping_carrier\<close> followed by further assignments of the \<^verbatim>\<open>SET\<close> clause.
  What such a statement does to the table is the environment's \<open>update_with_carrier\<close>,
  given the name of the table, the bound carrier, the bound tracking number, the id and
  the rows; \<open>None\<close> says that the query throws.
\<close>

definition set_tracking :: "env \<Rightarrow> string \<Rightarrow> string option \<Rightarrow> application \<Rightarrow> application" where
  "set_tracking e trackingNumber carrier r =
     r\<lparr>tracking_number := Some (trim e trackingNumber),
       shipping_carrier := carrier,
       updated_at := db_now e\<rparr>"

fun update_tracking ::
  "env \<Rightarrow> string \<Rightarrow> string \<Rightarrow> json option \<Rightarrow> nat \<Rightarrow> application list
     \<Rightarrow> application list option" where
  "update_tracking e table trackingNumber None ident rows =
     Some (update_by_id (set_tracking e trackingNumber None) ident rows)"
| "update_tracking e table trackingNumber (Some (JStr c)) ident rows =
     Some (update_by_id (set_tracking e trackingNumber (Some c)) ident rows)"
| "update_tracking e table trackingNumber (Some v) ident rows =
     update_with_carrier e table v (trim e trackingNumber) ident rows"

text \<open>
  The visa handler. In the mail's \<^verbatim>\<open>try\<close> block,
  \<^verbatim>\<open>carrier ? carrier.toUpperCase() : 'your carrier'\<close> is a \<^verbatim>\<open>TypeError\<close> for a truthy
  carrier that is not a string; it is caught there, before \<^verbatim>\<open>sgMail.send\<close>.
\<close>

definition visa_tracking_handler ::
  "env \<Rightarrow> store \<Rightarrow> claims \<Rightarrow> nat \<Rightarrow> json option \<Rightarrow> json option \<Rightarrow> outcome" where
  "visa_tracking_handler e s usr ident trackingNumber carrier =
     (if js_falsy trackingNumber \<or> \<not> js_is_string trackingNumber
         \<or> length (trim e (js_string trackingNumber)) = 0
      then respond s 400 (ErrorBody ''Tracking number is required'')
      else if db_fault e = Some 0 then server_error s
      else
        (case select_by_id (visa_applications s) ident of
           [] \<Rightarrow> respond s 404 (ErrorBody ''Application not found'')
         | application # _ \<Rightarrow>
             if db_fault e = Some 1 then server_error s
             else
               (case update_tracking e ''visa_applications'' (js_string trackingNumber)
                       (or_null carrier) ident (visa_applications s) of
                  None \<Rightarrow> server_error s
                | Some rows \<Rightarrow>
                    \<lparr>new_store = s\<lparr>visa_applications := rows\<rparr>,
                     reply = \<lparr>http_status = 200,
                              body = TrackingSet (app_id application)
                                       (trim e (js_string trackingNumber)) (or_null carrier)\<rparr>,
                     sent = (if \<not> js_falsy carrier \<and> \<not> js_is_string carrier then []
                             else send_mail e
                                    \<lparr>mail_to = user_name application, mail_from = CONTACT_FROM e,
                                     mail_subject =
                                       ''Tracking Number Available - Visa Application''\<rparr>)\<rparr>)))"

definition visa_tracking_route ::
  "env \<Rightarrow> store \<Rightarrow> headers \<Rightarrow> nat \<Rightarrow> json option \<Rightarrow> json option \<Rightarrow> outcome" where
  "visa_tracking_route e s h ident trackingNumber carrier =
     with_admin e s h (\<lambda>usr. visa_tracking_handler e s usr ident trackingNumber carrier)"

definition marriage_tracking_handler ::
  "env \<Rightarrow> store \<Rightarrow> claims \<Rightarrow> nat \<Rightarrow> json option \<Rightarrow> json option \<Rightarrow> outcome" where
  "marriage_tracking_handler e s usr ident trackingNumber carrier =
     (if js_falsy trackingNumber \<or> \<not> js_is_string trackingNumber
      then respond s 400 (ErrorBody ''Tracking number is required'')
      else if db_fault e = Some 0 then server_error s
      else
        (case update_tracking e ''marriage_applications'' (js_string trackingNumber)
                (or_null carrier) ident (marriage_applications s) of
           None \<Rightarrow> server_error s
         | Some rows \<Rightarrow>
             \<lparr>new_store = s\<lparr>marriage_applications := rows\<rparr>,
              reply = \<lparr>http_status = 200, body = CarrierSet (or_null carrier)\<rparr>,
              sent = []\<rparr>))"

definition marriage_tracking_route ::
  "env \<Rightarrow> store \<Rightarrow> headers \<Rightarrow> nat \<Rightarrow> json option \<Rightarrow> json option \<Rightarrow> outcome" where
  "marriage_tracking_route e s h ident trackingNumber carrier =
     with_admin e s h (\<lambda>usr. marriage_tracking_handler e s usr ident trackingNumber carrier)"

definition birth_tracking_handler ::
  "env \<Rightarrow> store \<Rightarrow> claims \<Rightarrow> nat \<Rightarrow> json option \<Rightarrow> json option \<Rightarrow> outcome" where
  "birth_tracking_handler e s usr ident trackingNumber carrier =
     (if js_falsy trackingNumber \<or> \<not> js_is_string trackingNumber
      then respond s 400 (ErrorBody ''Tracking number is required'')
      else if db_fault e = Some 0 then server_error s
      else
        (case update_tracking e ''birth_certificate_applications'' (js_string trackingNumber)
                (or_null carrier) ident (birth_certificate_applications s) of
           None \<Rightarrow> server_error s
         | Some rows \<Rightarrow>
             \<lparr>new_store = s\<lparr>birth_certificate_applications := rows\<rparr>,
              reply = \<lparr>http_status = 200, body = CarrierSet (or_null carrier)\<rparr>,
              sent = []\<rparr>))"

definition birth_tracking_route ::
  "env \<Rightarrow> store \<Rightarrow> headers \<Rightarrow> nat \<Rightarrow> json option \<Rightarrow> json option \<Rightarrow> outcome" where
  "birth_tracking_route e s h ident trackingNumber carrier =
     with_admin e s h (\<lambda>usr. birth_tracking_handler e s usr ident trackingNumber carrier)"

definition travel_tracking_handler ::
  "env \<Rightarrow> store \<Rightarrow> claims \<Rightarrow> nat \<Rightarrow> json option \<Rightarrow> json option \<Rightarrow> outcome" where
  "travel_tracking_handler e s usr ident trackingNumber carrier =
     (if js_falsy trackingNumber \<or> \<not> js_is_string trackingNumber
      then respond s 400 (ErrorBody ''Tracking number is required'')
      else if db_fault e = Some 0 then server_error s
      else
        (case update_tracking e ''travel_pass_applications'' (js_string trackingNumber)
                (or_null carrier) ident (travel_pass_applications s) of
           None \<Rightarrow> server_error s
         | Some rows \<Rightarrow>
             \<lparr>new_store = s\<lparr>travel_pass_applications := rows\<rparr>,
              reply = \<lparr>http_status = 200, body = CarrierSet (or_null carrier)\<rparr>,
              sent = []\<rparr>))"

definition travel_tracking_route ::
  "env \<Rightarrow> store \<Rightarrow> headers \<Rightarrow> nat \<Rightarrow> json option \<Rightarrow> json option \<Rightarrow> outcome" where
  "travel_tracking_route e s h ident trackingNumber carrier =
     with_admin e s h (\<lambda>usr. travel_tracking_handler e s usr ident trackingNumber carrier)"

section \<open>Per-user read endpoints\<close>

text \<open>
  \<^verbatim>\<open>GET /api/<type>-applications/:id\<close> and \<^verbatim>\<open>.../:id/pdf\<close> are the same code for the
  four types but for the table; \<open>detail_handler\<close> and \<open>pdf_handler\<close> take the table.
  The column list of a \<^verbatim>\<open>SELECT\<close> is not modelled: a response carries the selected rows.
  The PDF is rendered by \<^verbatim>\<open>pdfkit\<close> from the row and the barcode of \<^verbatim>\<open>bwip-js\<close>.
\<close>

definition detail_handler :: "env \<Rightarrow> store \<Rightarrow> application list \<Rightarrow> claims \<Rightarrow> nat \<Rightarrow> outcome" where
  "detail_handler e s table usr ident =
     (if db_fault e = Some 0 then server_error s
      else
        (case select_by_id table ident of
           [] \<Rightarrow> respond s 404 (ErrorBody ''Application not found'')
         | application # _ \<Rightarrow>
             if \<not> isAdmin usr \<and> claim_username usr \<noteq> user_name application
             then respond s 403 (ErrorBody ''Access denied'')
             else respond s 200 (Row application)))"

definition pdf_handler :: "env \<Rightarrow> store \<Rightarrow> application list \<Rightarrow> claims \<Rightarrow> nat \<Rightarrow> outcome" where
  "pdf_handler e s table usr ident =
     (if db_fault e = Some 0 then server_error s
      else
        (case select_by_id table ident of
           [] \<Rightarrow> respond s 404 (ErrorBody ''Not found'')
         | application # _ \<Rightarrow>
             if \<not> isAdmin usr \<and> claim_username usr \<noteq> user_name application
             then respond s 403 (ErrorBody ''Access denied'')
             else if barcode_fails e then server_error s
             else respond s 200 (Pdf application)))"

text \<open>
  \<^verbatim>\<open>GET /api/<type>-applications/user/:username\<close> for visa, marriage and birth
  certificate: the same code but for the table.
\<close>

definition user_list_handler ::
  "env \<Rightarrow> store \<Rightarrow> application list \<Rightarrow> claims \<Rightarrow> string \<Rightarrow> outcome" where
  "user_list_handler e s table usr name =
     (if name = [] then respond s 400 (ErrorBody ''Missing username'')
      else if \<not> isAdmin usr \<and> claim_username usr \<noteq> toLowerCase e name
      then respond s 403 (ErrorBody ''Access denied'')
      else if db_fault e = Some 0 then server_error s
      else respond s 200
             (Rows (order_desc (filter (\<lambda>r. user_name r = toLowerCase e name) table))))"

definition travel_user_list_handler ::
  "env \<Rightarrow> store \<Rightarrow> claims \<Rightarrow> string \<Rightarrow> outcome" where
  "travel_user_list_handler e s usr name =
     (if claim_username usr \<noteq> name \<and> \<not> isAdmin usr
      then respond s 403 (ErrorBody ''Forbidden'')
      else if db_fault e = Some 0 then server_error s
      else respond s 200
             (Rows (order_desc (filter (\<lambda>r. user_name r = name) (travel_pass_applications s)))))"

definition visa_detail_route :: "env \<Rightarrow> store \<Rightarrow> headers \<Rightarrow> nat \<Rightarrow> outcome" where
  "visa_detail_route e s h ident =
     with_auth e s h (\<lambda>usr. detail_handler e s (visa_applications s) usr ident)"

definition marriage_detail_route :: "env \<Rightarrow> store \<Rightarrow> headers \<Rightarrow> nat \<Rightarrow> outcome" where
  "marriage_detail_route e s h ident =
     with_auth e s h (\<lambda>usr. detail_handler e s (marriage_applications s) usr ident)"

definition birth_detail_route :: "env \<Rightarrow> store \<Rightarrow> headers \<Rightarrow> nat \<Rightarrow> outcome" where
  "birth_detail_route e s h ident =
     with_auth e s h (\<lambda>usr. detail_handler e s (birth_certificate_applications s) usr ident)"

definition travel_detail_route :: "env \<Rightarrow> store \<Rightarrow> headers \<Rightarrow> nat \<Rightarrow> outcome" where
  "travel_detail_route e s h ident =
     with_auth e s h (\<lambda>usr. detail_handler e s (travel_pass_applications s) usr ident)"

definition visa_pdf_route :: "env \<Rightarrow> store \<Rightarrow> headers \<Rightarrow> nat \<Rightarrow> outcome" where
  "visa_pdf_route e s h ident =
     with_auth e s h (\<lambda>usr. pdf_handler e s (visa_applications s) usr ident)"

definition marriage_pdf_route :: "env \<Rightarrow> store \<Rightarrow> headers \<Rightarrow> nat \<Rightarrow> outcome" where
  "marriage_pdf_route e s h ident =
     with_auth e s h (\<lambda>usr. pdf_handler e s (marriage_applications s) usr ident)"

definition birth_pdf_route :: "env \<Rightarrow> store \<Rightarrow> headers \<Rightarrow> nat \<Rightarrow> outcome" where
  "birth_pdf_route e s h ident =
     with_auth e s h (\<lambda>usr. pdf_handler e s (birth_certificate_applications s) usr ident)"

definition travel_pdf_route :: "env \<Rightarrow> store \<Rightarrow> headers \<Rightarrow> nat \<Rightarrow> outcome" where
  "travel_pdf_route e s h ident =
     with_auth e s h (\<lambda>usr. pdf_handler e s (travel_pass_applications s) usr ident)"

definition visa_user_list_route :: "env \<Rightarrow> store \<Rightarrow> headers \<Rightarrow> string \<Rightarrow> outcome" where
  "visa_user_list_route e s h name =
     with_auth e s h (\<lambda>usr. user_list_handler e s (visa_applications s) usr name)"

definition marriage_user_list_route :: "env \<Rightarrow> store \<Rightarrow> headers \<Rightarrow> string \<Rightarrow> outcome" where
  "marriage_user_list_route e s h name =
     with_auth e s h (\<lambda>usr. user_list_handler e s (marriage_applications s) usr name)"

definition birth_user_list_route :: "env \<Rightarrow> store \<Rightarrow> headers \<Rightarrow> string \<Rightarrow> outcome" where
  "birth_user_list_route e s h name =
     with_auth e s h (\<lambda>usr. user_list_handler e s (birth_certificate_applications s) usr name)"

definition travel_user_list_route :: "env \<Rightarrow> store \<Rightarrow> headers \<Rightarrow> string \<Rightarrow> outcome" where
  "travel_user_list_route e s h name =
     with_auth e s h (\<lambda>usr. travel_user_list_handler e s usr name)"

section \<open>Chat\<close>

text \<open>
  The chat bodies' fields are strings when present. \<open>session_id\<close> is a \<open>UNIQUE\<close> key
  of \<open>chat_conversations\<close>, and \<open>chat_messages.conversation_id\<close> a foreign key into it:
  an \<^verbatim>\<open>INSERT\<close> that breaks either throws (\<open>None\<close>).
\<close>

record chat_start_body =
  cs_sessionId :: "string option"
  cs_userName :: "string option"
  cs_userEmail :: "string option"

record chat_message_body =
  cm_sessionId :: "string option"
  cm_senderType :: "string option"
  cm_senderName :: "string option"
  cm_message :: "string option"

fun opt_string :: "string option \<Rightarrow> string" where
  "opt_string None = []"
| "opt_string (Some s) = s"

definition row_info :: "conversation \<Rightarrow> conv_info" where
  "row_info c =
     \<lparr>cv_id = conv_id c, cv_session_id = session_id c, cv_user_name = conv_user_name c,
      cv_user_email = user_email c, cv_status = conv_status c,
      cv_times = Some (last_message_at c, conv_created_at c)\<rparr>"

definition messages_of :: "store \<Rightarrow> nat \<Rightarrow> message list" where
  "messages_of s cid =
     sort_key msg_created_at (filter (\<lambda>m. conversation_id m = cid) (chat_messages s))"

definition insert_conversation ::
  "env \<Rightarrow> conversation list \<Rightarrow> string \<Rightarrow> string \<Rightarrow> string \<Rightarrow> (conversation list \<times> nat) option" where
  "insert_conversation e rows sid name email =
     (if sid \<in> set (map session_id rows) then None
      else
        (let newId = insertId (map conv_id rows) in
         Some (rows @ [\<lparr>conv_id = newId, session_id = sid, conv_user_name = name,
                        user_email = email, conv_status = ''active'',
                        last_message_at = db_now e, conv_created_at = db_now e\<rparr>], newId)))"

definition insert_message ::
  "env \<Rightarrow> store \<Rightarrow> nat \<Rightarrow> string \<Rightarrow> string option \<Rightarrow> string \<Rightarrow> store option" where
  "insert_message e s cid senderType senderName txt =
     (if cid \<notin> set (map conv_id (chat_conversations s)) then None
      else Some (s\<lparr>chat_messages := chat_messages s @
                  [\<lparr>msg_id = insertId (map msg_id (chat_messages s)), conversation_id = cid,
                    sender_type = senderType, sender_name = senderName, message_text = txt,
                    msg_created_at = db_now e\<rparr>]\<rparr>))"

definition touch_conversation :: "env \<Rightarrow> store \<Rightarrow> nat \<Rightarrow> store" where
  "touch_conversation e s cid =
     s\<lparr>chat_conversations :=
         map (\<lambda>c. if conv_id c = cid then c\<lparr>last_message_at := db_now e\<rparr> else c)
           (chat_conversations s)\<rparr>"

definition chat_conversation_handler :: "env \<Rightarrow> store \<Rightarrow> chat_start_body \<Rightarrow> outcome" where
  "chat_conversation_handler e s b =
     (if str_falsy (cs_sessionId b) \<or> str_falsy (cs_userName b) \<or> str_falsy (cs_userEmail b)
      then respond s 400 (ErrorBody ''Missing required fields'')
      else if db_fault e = Some 0 then server_error s
      else
        (case filter (\<lambda>c. session_id c = opt_string (cs_sessionId b)) (chat_conversations s) of
           existing # _ \<Rightarrow>
             if db_fault e = Some 1 then server_error s
             else respond s 200 (ChatBody (row_info existing) (messages_of s (conv_id existing)))
         | [] \<Rightarrow>
             if db_fault e = Some 1 then server_error s
             else
               (case insert_conversation e (chat_conversations s) (opt_string (cs_sessionId b))
                       (opt_string (cs_userName b)) (opt_string (cs_userEmail b)) of
                  None \<Rightarrow> server_error s
                | Some (rows, newId) \<Rightarrow>
                    respond (s\<lparr>chat_conversations := rows\<rparr>) 200
                      (ChatBody
                         \<lparr>cv_id = newId, cv_session_id = opt_string (cs_sessionId b),
                          cv_user_name = opt_string (cs_userName b),
                          cv_user_email = opt_string (cs_userEmail b),
                          cv_status = ''active'', cv_times = None\<rparr>
                         []))))"

definition chat_message_handler :: "env \<Rightarrow> store \<Rightarrow> chat_message_body \<Rightarrow> outcome" where
  "chat_message_handler e s b =
     (if str_falsy (cm_sessionId b) \<or> str_falsy (cm_senderType b) \<or> str_falsy (cm_message b)
      then respond s 400 (ErrorBody ''Missing required fields'')
      else if db_fault e = Some 0 then server_error s
      else
        (case filter (\<lambda>c. session_id c = opt_string (cm_sessionId b)) (chat_conversations s) of
           [] \<Rightarrow> respond s 404 (ErrorBody ''Conversation not found'')
         | c # _ \<Rightarrow>
             if db_fault e = Some 1 then server_error s
             else
               (case insert_message e s (conv_id c) (opt_string (cm_senderType b))
                       (cm_senderName b) (opt_string (cm_message b)) of
                  None \<Rightarrow> server_error s
                | Some s1 \<Rightarrow>
                    if db_fault e = Some 2 then server_error s1
                    else respond (touch_conversation e s1 (conv_id c)) 200 Success)))"

definition chat_admin_reply_handler ::
  "env \<Rightarrow> store \<Rightarrow> claims \<Rightarrow> nat option \<Rightarrow> string option \<Rightarrow> outcome" where
  "chat_admin_reply_handler e s usr conversationId msg =
     (case conversationId of
        None \<Rightarrow> respond s 400 (ErrorBody ''Missing required fields'')
      | Some cid \<Rightarrow>
          if cid = 0 \<or> str_falsy msg
          then respond s 400 (ErrorBody ''Missing required fields'')
          else if db_fault e = Some 0 then server_error s
          else
            (case insert_message e s cid ''admin'' (Some (claim_username usr)) (opt_string msg) of
               None \<Rightarrow> server_error s
             | Some s1 \<Rightarrow>
                 if db_fault e = Some 1 then server_error s1
                 else respond (touch_conversation e s1 cid) 200 Success))"

definition chat_admin_reply_route ::
  "env \<Rightarrow> store \<Rightarrow> headers \<Rightarrow> nat option \<Rightarrow> string option \<Rightarrow> outcome" where
  "chat_admin_reply_route e s h conversationId msg =
     with_admin e s h (\<lambda>usr. chat_admin_reply_handler e s usr conversationId msg)"

text \<open>
  Closing writes the \<open>status\<close> column only; \<open>last_message_at\<close> is
  \<open>ON UPDATE CURRENT_TIMESTAMP\<close>, so it moves when the row changes.
\<close>

definition chat_close_handler :: "env \<Rightarrow> store \<Rightarrow> claims \<Rightarrow> nat \<Rightarrow> outcome" where
  "chat_close_handler e s usr ident =
     (if db_fault e = Some 0 then server_error s
      else
        respond
          (s\<lparr>chat_conversations :=
               map (\<lambda>c. if conv_id c = ident \<and> conv_status c \<noteq> ''closed''
                         then c\<lparr>conv_status := ''closed'', last_message_at := db_now e\<rparr>
                         else c)
                 (chat_conversations s)\<rparr>)
          200 Success)"

definition chat_close_route :: "env \<Rightarrow> store \<Rightarrow> headers \<Rightarrow> nat \<Rightarrow> outcome" where
  "chat_close_route e s h ident =
     with_admin e s h (\<lambda>usr. chat_close_handler e s usr ident)"


text \<open>The token a response carries (\<open>None\<close>: it carries none).\<close>

fun issued_token :: "body \<Rightarrow> string option" where
  "issued_token (Session t info) = Some t"
| "issued_token b = None"

section \<open>The requests of the server\<close>

text \<open>
  The requests that write to the store or read one user's applications, and the account
  requests. The remaining routes of \<^verbatim>\<open>index.js\<close> (health, contact, the administrator's
  lists, statistics and chat views, the chat session view) run \<^verbatim>\<open>SELECT\<close> statements only
  and issue no token; they are left out.
\<close>

datatype request =
    Signup signup_body
  | Login login_body
  | VisaCreate headers "(string \<times> json) list"
  | MarriageCreate headers "(string \<times> json) list"
  | BirthCreate headers "(string \<times> json) list"
  | TravelCreate headers "(string \<times> json) list"
  | VisaStatus headers nat "json option"
  | MarriageStatus headers nat "json option"
  | BirthStatus headers nat "json option"
  | TravelStatus headers nat "json option"
  | VisaTracking headers nat "json option" "json option"
  | MarriageTracking headers nat "json option" "json option"
  | BirthTracking headers nat "json option" "json option"
  | TravelTracking headers nat "json option" "json option"
  | VisaDetail headers nat
  | MarriageDetail headers nat
  | BirthDetail headers nat
  | TravelDetail headers nat
  | VisaPdf headers nat
  | MarriagePdf headers nat
  | BirthPdf headers nat
  | TravelPdf headers nat
  | VisaUserList headers string
  | MarriageUserList headers string
  | BirthUserList headers string
  | TravelUserList headers string
  | ChatConversation chat_start_body
  | ChatMessage chat_message_body
  | ChatAdminReply headers "nat option" "string option"
  | ChatClose headers nat

fun serve :: "env \<Rightarrow> store \<Rightarrow> request \<Rightarrow> outcome" where
  "serve e s (Signup b) = signup_route e s b"
| "serve e s (Login b) = login_route e s b"
| "serve e s (VisaCreate h f) = visa_create_route e s h f"
| "serve e s (MarriageCreate h f) = marriage_create_route e s h f"
| "serve e s (BirthCreate h f) = birth_create_route e s h f"
| "serve e s (TravelCreate h f) = travel_create_route e s h f"
| "serve e s (VisaStatus h i st) = visa_status_route e s h i st"
| "serve e s (MarriageStatus h i st) = marriage_status_route e s h i st"
| "serve e s (BirthStatus h i st) = birth_status_route e s h i st"
| "serve e s (TravelStatus h i st) = travel_status_route e s h i st"
| "serve e s (VisaTracking h i t c) = visa_tracking_route e s h i t c"
| "serve e s (MarriageTracking h i t c) = marriage_tracking_route e s h i t c"
| "serve e s (BirthTracking h i t c) = birth_tracking_route e s h i t c"
| "serve e s (TravelTracking h i t c) = travel_tracking_route e s h i t c"
| "serve e s (VisaDetail h i) = visa_detail_route e s h i"
| "serve e s (MarriageDetail h i) = marriage_detail_route e s h i"
| "serve e s (BirthDetail h i) = birth_detail_route e s h i"
| "serve e s (TravelDetail h i) = travel_detail_route e s h i"
| "serve e s (VisaPdf h i) = visa_pdf_route e s h i"
| "serve e s (MarriagePdf h i) = marriage_pdf_route e s h i"
| "serve e s (BirthPdf h i) = birth_pdf_route e s h i"
| "serve e s (TravelPdf h i) = travel_pdf_route e s h i"
| "serve e s (VisaUserList h n) = visa_user_list_route e s h n"
| "serve e s (MarriageUserList h n) = marriage_user_list_route e s h n"
| "serve e s (BirthUserList h n) = birth_user_list_route e s h n"
| "serve e s (TravelUserList h n) = travel_user_list_route e s h n"
| "serve e s (ChatConversation b) = chat_conversation_handler e s b"
| "serve e s (ChatMessage b) = chat_message_handler e s b"
| "serve e s (ChatAdminReply h c m) = chat_admin_reply_route e s h c m"
| "serve e s (ChatClose h i) = chat_close_route e s h i"

section \<open>The enums of the status columns\<close>

text \<open>
  The \<open>status\<close> columns of \<^verbatim>\<open>db.js\<close>: \<open>status_enum\<close> is the \<open>ENUM\<close> of the visa,
  marriage and birth-certificate tables, \<open>travel_pass_status_enum\<close> that of the
  travel-pass table. \<open>status_invariant\<close> says that every stored status is a member of
  its column's enum; \<open>NULL\<close> is no member.
\<close>

definition status_enum :: "string list" where
  "status_enum = [''pending'', ''under_review'', ''approved'', ''denied'', ''shipped'']"

definition travel_pass_status_enum :: "string list" where
  "travel_pass_status_enum =
     [''pending'', ''under_review'', ''approved'', ''denied'', ''issued'', ''collected'']"

definition statuses_in :: "string list \<Rightarrow> application list \<Rightarrow> bool" where
  "statuses_in enum rows = list_all (\<lambda>r. status r \<in> set (map Some enum)) rows"

definition status_invariant :: "store \<Rightarrow> bool" where
  "status_invariant s =
     (statuses_in status_enum (visa_applications s) \<and>
      statuses_in status_enum (marriage_applications s) \<and>
      statuses_in status_enum (birth_certificate_applications s) \<and>
      statuses_in travel_pass_status_enum (travel_pass_applications s))"

section \<open>Sample data\<close>

text \<open>
  A concrete environment and store for the examples below. The theorems hold for every
  environment; the sample library functions are defined on the few values the examples
  use (a codec for two history texts, tokens for two callers, the string methods on
  ASCII text, one bound object).
\<close>

definition admin_claims :: claims where
  "admin_claims = \<lparr>claim_id = 1, claim_username = ''admin@embassy.org'', isAdmin = True\<rparr>"

definition bob_claims :: claims where
  "bob_claims = \<lparr>claim_id = 2, claim_username = ''bob@example.com'', isAdmin = False\<rparr>"

definition sample_entry :: json where
  "sample_entry =
     visa_history_entry ''approved'' ''admin@embassy.org'' ''2024-01-01T00:00:00.000Z''
       (Some ''pending'')"

definition sample_travel_entry :: json where
  "sample_travel_entry = travel_history_entry ''issued'' ''2024-01-01T00:00:00.000Z''"

definition sample_parse :: "string \<Rightarrow> json option" where
  "sample_parse txt =
     (if txt = ''[]'' then Some (JArr [])
      else if txt = ''[visa entry]'' then Some (JArr [sample_entry])
      else if txt = ''[travel entry]'' then Some (JArr [sample_travel_entry])
      else if txt = ''{}'' then Some (JObj [])
      else None)"

definition sample_stringify :: "json \<Rightarrow> string" where
  "sample_stringify j =
     (if j = JArr [] then ''[]''
      else if j = JArr [sample_entry] then ''[visa entry]''
      else if j = JArr [sample_travel_entry] then ''[travel entry]''
      else if j = JObj [] then ''{}''
      else ''[...]'')"

text \<open>
  The bound carrier \<^verbatim>\<open>{id: n, status: null}\<close>, where \<open>n\<close> is the id of the request.
  \<^verbatim>\<open>mysql2\<close> writes the object as \<^verbatim>\<open>`id` = n, `status` = NULL\<close>, so that the statement
  reads
  \<^verbatim>\<open>SET tracking_number = '...', shipping_carrier = `id` = n, `status` = NULL, updated_at = NOW() WHERE id = n\<close>.
  On a row with that id the comparison \<^verbatim>\<open>`id` = n\<close> is 1, which the column
  \<open>shipping_carrier\<close> of type \<open>ENUM('usps', 'ups', 'fedex')\<close> takes as the index of its
  first member, and \<open>status\<close> is assigned \<open>NULL\<close>; the visa table's \<open>status\<close> is
  \<open>NOT NULL\<close> and the statement fails there. \<open>now\<close> is the database clock. Every
  other bound value is left out of the sample (\<open>None\<close>).
\<close>

definition sample_update_with_carrier ::
  "nat \<Rightarrow> string \<Rightarrow> json \<Rightarrow> string \<Rightarrow> nat \<Rightarrow> application list \<Rightarrow> application list option" where
  "sample_update_with_carrier now table v trackingNumber ident rows =
     (if v = JObj [(''id'', JNum (int ident)), (''status'', JNull)]
         \<and> table \<noteq> ''visa_applications''
      then Some (update_by_id
                   (\<lambda>r. r\<lparr>tracking_number := Some trackingNumber,
                          shipping_carrier := Some ''usps'',
                          status := None,
                          updated_at := now\<rparr>)
                   ident rows)
      else None)"

definition sample_env :: env where
  "sample_env =
     \<lparr>SENDGRID_API_KEY = True, CONTACT_FROM = ''no-reply@usrcaembassy.org'',
      now_iso = ''2024-01-01T00:00:00.000Z'', db_now = 100, db_fault = None,
      mail_fails = False, barcode_fails = False,
      JSON_parse = sample_parse, JSON_stringify = sample_stringify,
      jwt_sign = (\<lambda>c. ''jwt:'' @ claim_username c @ (if isAdmin c then '':admin'' else '':user'')),
      jwt_verify = (\<lambda>t. if t = ''jwt:admin@embassy.org:admin'' then Some admin_claims
                         else if t = ''jwt:bob@example.com:user'' then Some bob_claims
                         else None),
      bcrypt_hash = (\<lambda>p. ''hash:'' @ p),
      bcrypt_compare = (\<lambda>p h. h = ''hash:'' @ p),
      signup_chain = (\<lambda>b. ([], b)),
      login_chain = (\<lambda>b. ([], b)),
      visa_chain = (\<lambda>b. ([], b)),
      toLowerCase = ascii_toLowerCase, toUpperCase = ascii_toUpperCase, trim = ascii_trim,
      update_with_carrier = sample_update_with_carrier 100\<rparr>"

definition sample_application :: "nat \<Rightarrow> string \<Rightarrow> string option \<Rightarrow> application" where
  "sample_application i owner history =
     \<lparr>app_id = i, user_id = None, user_name = owner, status = Some ''pending'',
      status_history = history, tracking_number = None, shipping_carrier = None,
      form = [], created_at = 50, updated_at = 50\<rparr>"

definition sample_store :: store where
  "sample_store =
     \<lparr>login = [],
      visa_applications =
        [sample_application 1 ''bob@example.com'' None,
         sample_application 2 ''alice@example.com'' (Some ''corrupt'')],
      marriage_applications = [sample_application 1 ''alice@example.com'' None],
      birth_certificate_applications = [sample_application 1 ''alice@example.com'' None],
      travel_pass_applications =
        [sample_application 1 ''bob@example.com'' None,
         sample_application 2 ''alice@example.com'' (Some ''corrupt'')],
      chat_conversations = [], chat_messages = []\<rparr>"


definition sample_signup :: signup_body where
  "sample_signup =
     \<lparr>su_username = ''Admin@Embassy.org'', su_password = ''Secret#123'',
      su_firstName = ''Ada'', su_lastName = ''Min''\<rparr>"

definition sample_login :: login_body where
  "sample_login = \<lparr>li_username = ''admin@embassy.org'', li_password = ''Secret#123''\<rparr>"

definition admin_headers :: headers where
  "admin_headers =
     \<lparr>authorization = Some ''Bearer jwt:admin@embassy.org:admin'', cookie_token = None\<rparr>"

definition bob_headers :: headers where
  "bob_headers =
     \<lparr>authorization = None, cookie_token = Some ''jwt:bob@example.com:user''\<rparr>"

text \<open>The carrier of a tracking request that is an object.\<close>

definition sample_carrier :: json where
  "sample_carrier = JObj [(''id'', JNum 1), (''status'', JNull)]"

text \<open>
  A marriage form with the columns that \<^verbatim>\<open>db.js\<close> declares \<open>NOT NULL\<close>, and the store
  after \<open>bob@example.com\<close> has submitted it to the empty tables of \<^verbatim>\<open>initDB\<close>.
\<close>

definition sample_marriage_form :: "(string \<times> json) list" where
  "sample_marriage_form =
     [(''spouse1_first_name'', JStr ''Bob''), (''spouse1_last_name'', JStr ''Baker''),
      (''spouse1_birth_date'', JStr ''1990-01-01''), (''spouse1_nationality'', JStr ''Central African''),
      (''spouse2_first_name'', JStr ''Alice''), (''spouse2_last_name'', JStr ''Adams''),
      (''spouse2_birth_date'', JStr ''1991-02-02''), (''spouse2_nationality'', JStr ''Central African''),
      (''marriage_date'', JStr ''2020-03-03''), (''marriage_place'', JStr ''Bangui''),
      (''marriage_country'', JStr ''Central African Republic''), (''marriage_type'', JStr ''civil''),
      (''certificate_purpose'', JStr ''Immigration'')]"

definition sample_submitted :: store where
  "sample_submitted =
     new_store (serve sample_env empty_store (MarriageCreate bob_headers sample_marriage_form))"

section \<open>Auxiliary facts\<close>

lemma js_includes_iff: "js_includes xs st = (\<exists>x. x \<in> set xs \<and> st = Some (JStr x))"
  by (cases "(xs, st)" rule: js_includes.cases) auto

lemma js_includes_truthy: "js_includes xs st \<Longrightarrow> [] \<notin> set xs \<Longrightarrow> \<not> js_falsy st"
  by (cases "(xs, st)" rule: js_includes.cases) auto

lemma js_includes_string: "js_includes xs st \<Longrightarrow> st = Some (JStr (js_string st)) \<and> js_string st \<in> set xs"
  by (cases "(xs, st)" rule: js_includes.cases) auto

lemma select_update_by_id:
  assumes "\<And>r. app_id (f r) = app_id r"
  shows "select_by_id (update_by_id f i rows) j =
           (if j = i then map f (select_by_id rows i) else select_by_id rows j)"
  using assms by (induction rows) (auto simp: select_by_id_def update_by_id_def)

lemma visa_enum_includes:
  "st \<in> {Some (JStr ''pending''), Some (JStr ''under_review''), Some (JStr ''approved''),
          Some (JStr ''denied''), Some (JStr ''shipped'')} \<Longrightarrow> js_includes visa_validStatuses st"
  by (auto simp: visa_validStatuses_def)

text \<open>
  What the visa handler does on an application it finds, for an accepted status and a
  stored history that reads as an array.
\<close>

lemma visa_status_success:
  assumes "js_includes visa_validStatuses st" "db_fault e \<noteq> Some 0" "db_fault e \<noteq> Some 1"
    and "select_by_id (visa_applications s) i = a # rest"
    and "visa_read_history e (status_history a) = JArr h"
  shows "visa_status_handler e s usr i st =
    \<lparr>new_store = s\<lparr>visa_applications :=
        update_by_id
          (\<lambda>r. r\<lparr>status := Some (js_string st),
                 status_history := Some (JSON_stringify e (JArr (h @
                   [visa_history_entry (js_string st) (claim_username usr) (now_iso e) (status a)]))),
                 updated_at := db_now e\<rparr>)
          i (visa_applications s)\<rparr>,
     reply = \<lparr>http_status = 200, body = StatusChanged (app_id a) (js_string st) (status a)\<rparr>,
     sent = send_mail e (visa_status_mail e a (js_string st))\<rparr>"
proof -
  have "\<not> js_falsy st"
    using assms(1) by (rule js_includes_truthy) (simp add: visa_validStatuses_def)
  then show ?thesis
    using assms by (simp add: visa_status_handler_def Let_def)
qed

lemma visa_read_back:
  "txt \<noteq> [] \<Longrightarrow> JSON_parse e txt = Some j \<Longrightarrow> visa_read_history e (Some txt) = j"
  by (simp add: visa_read_history_def)

lemma visa_status_rows:
  fixes usr :: claims
  assumes "js_includes visa_validStatuses st" "db_fault e = None"
    and "select_by_id (visa_applications s) i = a # rest"
    and "visa_read_history e (status_history a) = JArr h"
  defines "out \<equiv> visa_status_handler e s usr i st"
  defines "entry \<equiv> visa_history_entry (js_string st) (claim_username usr) (now_iso e) (status a)"
  shows "http_status (reply out) = 200"
    and "select_by_id (visa_applications (new_store out)) i \<noteq> []"
    and "\<forall>r \<in> set (select_by_id (visa_applications (new_store out)) i).
           status r = Some (js_string st) \<and>
           status_history r = Some (JSON_stringify e (JArr (h @ [entry])))"
    and "JSON_stringify e (JArr (h @ [entry])) \<noteq> [] \<and>
         JSON_parse e (JSON_stringify e (JArr (h @ [entry]))) = Some (JArr (h @ [entry])) \<longrightarrow>
         (\<forall>r \<in> set (select_by_id (visa_applications (new_store out)) i).
            visa_read_history e (status_history r) = JArr (h @ [entry]))"
proof -
  have eq: "out = \<lparr>new_store = s\<lparr>visa_applications :=
        update_by_id
          (\<lambda>r. r\<lparr>status := Some (js_string st),
                 status_history := Some (JSON_stringify e (JArr (h @ [entry]))),
                 updated_at := db_now e\<rparr>)
          i (visa_applications s)\<rparr>,
     reply = \<lparr>http_status = 200, body = StatusChanged (app_id a) (js_string st) (status a)\<rparr>,
     sent = send_mail e (visa_status_mail e a (js_string st))\<rparr>"
    unfolding out_def entry_def using assms(1-4) by (intro visa_status_success) simp_all
  show "http_status (reply out) = 200" by (simp add: eq)
  show "select_by_id (visa_applications (new_store out)) i \<noteq> []"
    by (simp add: eq select_update_by_id assms(3))
  show "\<forall>r \<in> set (select_by_id (visa_applications (new_store out)) i).
           status r = Some (js_string st) \<and>
           status_history r = Some (JSON_stringify e (JArr (h @ [entry])))"
    by (auto simp: eq select_update_by_id)
  then show "JSON_stringify e (JArr (h @ [entry])) \<noteq> [] \<and>
         JSON_parse e (JSON_stringify e (JArr (h @ [entry]))) = Some (JArr (h @ [entry])) \<longrightarrow>
         (\<forall>r \<in> set (select_by_id (visa_applications (new_store out)) i).
            visa_read_history e (status_history r) = JArr (h @ [entry]))"
    by (auto simp: visa_read_back)
qed

text \<open>Evaluation of the sample requests: the definitions the simplifier unfolds.\<close>

lemmas sample_defs =
  sample_env_def sample_store_def sample_application_def sample_parse_def
  sample_stringify_def sample_entry_def sample_travel_entry_def
  admin_claims_def bob_claims_def admin_headers_def bob_headers_def empty_store_def

lemmas middleware_defs =
  with_admin_def with_auth_def authMiddleware_def adminMiddleware_def verifyToken_def
  startsWith_def respond_def server_error_def

lemmas status_defs =
  visa_status_route_def marriage_status_route_def birth_status_route_def
  travel_status_route_def visa_status_handler_def marriage_status_handler_def
  birth_status_handler_def travel_status_handler_def visa_validStatuses_def
  marriage_validStatuses_def birth_validStatuses_def travel_validStatuses_def
  visa_read_history_def travel_read_history_def visa_history_entry_def
  travel_history_entry_def visa_status_mail_def send_mail_def
  update_by_id_def select_by_id_def ascii_toUpperCase_def upper_char_def

section \<open>Rejection of a status outside the enum\<close>

text \<open>
  On the routes: the middleware writes nothing either, and an administrator's request
  reaches the handler.
\<close>

lemma invalid_status_on_route:
  "\<not> js_includes visa_validStatuses st \<Longrightarrow> new_store (visa_status_route e s h i st) = s"
  "\<not> js_includes marriage_validStatuses st \<Longrightarrow> new_store (marriage_status_route e s h i st) = s"
  "\<not> js_includes birth_validStatuses st \<Longrightarrow> new_store (birth_status_route e s h i st) = s"
  "\<not> js_includes travel_validStatuses st \<Longrightarrow> new_store (travel_status_route e s h i st) = s"
  "\<not> js_includes visa_validStatuses st \<Longrightarrow> authMiddleware e h = Inr usr \<Longrightarrow> isAdmin usr \<Longrightarrow>
     http_status (reply (visa_status_route e s h i st)) = 400"
  "\<not> js_includes marriage_validStatuses st \<Longrightarrow> authMiddleware e h = Inr usr \<Longrightarrow> isAdmin usr \<Longrightarrow>
     http_status (reply (marriage_status_route e s h i st)) = 400"
  "\<not> js_includes birth_validStatuses st \<Longrightarrow> authMiddleware e h = Inr usr \<Longrightarrow> isAdmin usr \<Longrightarrow>
     http_status (reply (birth_status_route e s h i st)) = 400"
  "\<not> js_includes travel_validStatuses st \<Longrightarrow> authMiddleware e h = Inr usr \<Longrightarrow> isAdmin usr \<Longrightarrow>
     http_status (reply (travel_status_route e s h i st)) = 400"
  by (auto simp: visa_status_route_def marriage_status_route_def birth_status_route_def
        travel_status_route_def with_admin_def with_auth_def adminMiddleware_def
        visa_status_handler_def marriage_status_handler_def birth_status_handler_def
        travel_status_handler_def respond_def split: sum.splits)

text \<open>
  Claim C4. A status update whose target status is not one of \<open>pending\<close>,
  \<open>under_review\<close>, \<open>approved\<close>, \<open>denied\<close>, \<open>shipped\<close> (for a travel pass: not one of
  \<open>pending\<close>, \<open>under_review\<close>, \<open>approved\<close>, \<open>denied\<close>, \<open>issued\<close>, \<open>collected\<close>) is
  answered by the handler with 400; the store is the one before the request and no mail
  is sent. This holds for every body value (absent, not a string, or a string outside
  the set), every caller and every environment, also one whose database is down: the
  rejection comes before the first query.
\<close>

theorem invalid_status_rejected:
  "(st \<notin> {Some (JStr ''pending''), Some (JStr ''under_review''), Some (JStr ''approved''),
           Some (JStr ''denied''), Some (JStr ''shipped'')} \<longrightarrow>
      new_store (visa_status_handler e s usr i st) = s \<and>
      http_status (reply (visa_status_handler e s usr i st)) = 400 \<and>
      sent (visa_status_handler e s usr i st) = [] \<and>
      new_store (marriage_status_handler e s usr i st) = s \<and>
      http_status (reply (marriage_status_handler e s usr i st)) = 400 \<and>
      sent (marriage_status_handler e s usr i st) = [] \<and>
      new_store (birth_status_handler e s usr i st) = s \<and>
      http_status (reply (birth_status_handler e s usr i st)) = 400 \<and>
      sent (birth_status_handler e s usr i st) = []) \<and>
   (st \<notin> {Some (JStr ''pending''), Some (JStr ''under_review''), Some (JStr ''approved''),
           Some (JStr ''denied''), Some (JStr ''issued''), Some (JStr ''collected'')} \<longrightarrow>
      new_store (travel_status_handler e s usr i st) = s \<and>
      http_status (reply (travel_status_handler e s usr i st)) = 400 \<and>
      sent (travel_status_handler e s usr i st) = [])"
proof -
  have visa: "visa_status_handler e s usr i st = respond s 400
      (ErrorBody (''Invalid status. Must be one of: '' @ join '', '' visa_validStatuses))"
    if "st \<notin> {Some (JStr ''pending''), Some (JStr ''under_review''), Some (JStr ''approved''),
           Some (JStr ''denied''), Some (JStr ''shipped'')}"
    using that by (auto simp: visa_status_handler_def visa_validStatuses_def js_includes_iff)
  have marriage: "marriage_status_handler e s usr i st = respond s 400 (ErrorBody ''Invalid status'')"
    if "st \<notin> {Some (JStr ''pending''), Some (JStr ''under_review''), Some (JStr ''approved''),
           Some (JStr ''denied''), Some (JStr ''shipped'')}"
    using that by (auto simp: marriage_status_handler_def marriage_validStatuses_def js_includes_iff)
  have birth: "birth_status_handler e s usr i st = respond s 400 (ErrorBody ''Invalid status'')"
    if "st \<notin> {Some (JStr ''pending''), Some (JStr ''under_review''), Some (JStr ''approved''),
           Some (JStr ''denied''), Some (JStr ''shipped'')}"
    using that by (auto simp: birth_status_handler_def birth_validStatuses_def js_includes_iff)
  have travel: "travel_status_handler e s usr i st = respond s 400 (ErrorBody ''Invalid status'')"
    if "st \<notin> {Some (JStr ''pending''), Some (JStr ''under_review''), Some (JStr ''approved''),
           Some (JStr ''denied''), Some (JStr ''issued''), Some (JStr ''collected'')}"
    using that by (auto simp: travel_status_handler_def travel_validStatuses_def js_includes_iff)
  show ?thesis
    using visa marriage birth travel by (simp add: respond_def)
qed

text \<open>
  The theorem at the status \<open>archived\<close>, which neither enum has, on the sample store.
\<close>

theorem invalid_status_rejected_witness:
  "new_store (visa_status_handler sample_env sample_store admin_claims 1 (Some (JStr ''archived'')))
     = sample_store \<and>
   http_status (reply (visa_status_handler sample_env sample_store admin_claims 1
     (Some (JStr ''archived'')))) = 400 \<and>
   http_status (reply (marriage_status_handler sample_env sample_store admin_claims 1
     (Some (JStr ''archived'')))) = 400 \<and>
   http_status (reply (birth_status_handler sample_env sample_store admin_claims 1
     (Some (JStr ''archived'')))) = 400 \<and>
   new_store (travel_status_handler sample_env sample_store admin_claims 1 (Some (JStr ''archived'')))
     = sample_store \<and>
   http_status (reply (travel_status_handler sample_env sample_store admin_claims 1
     (Some (JStr ''archived'')))) = 400"
  using invalid_status_rejected [of "Some (JStr ''archived'')" sample_env sample_store admin_claims 1]
  by simp

section \<open>The history written by a status update\<close>

lemma visa_history_appended:
  fixes usr :: claims
  assumes v: "st \<in> {Some (JStr ''pending''), Some (JStr ''under_review''), Some (JStr ''approved''),
           Some (JStr ''denied''), Some (JStr ''shipped'')}"
    "db_fault e = None"
    "select_by_id (visa_applications s) i = a # rest"
    "visa_read_history e (status_history a) = JArr h"
  shows "let out = visa_status_handler e s usr i st;
           entry = visa_history_entry (js_string st) (claim_username usr) (now_iso e) (status a);
           written = select_by_id (visa_applications (new_store out)) i
       in http_status (reply out) = 200 \<and> written \<noteq> [] \<and>
          (\<forall>r \<in> set written. status_history r = Some (JSON_stringify e (JArr (h @ [entry])))) \<and>
          length (h @ [entry]) = length h + 1 \<and>
          json_field ''previousStatus'' (last (h @ [entry])) = Some (column_value (status a)) \<and>
          (JSON_stringify e (JArr (h @ [entry])) \<noteq> [] \<and>
           JSON_parse e (JSON_stringify e (JArr (h @ [entry]))) = Some (JArr (h @ [entry])) \<longrightarrow>
             (\<forall>r \<in> set written. visa_read_history e (status_history r) = JArr (h @ [entry])))"
proof -
  have inc: "js_includes visa_validStatuses st"
    using v(1) by (rule visa_enum_includes)
  note R = visa_status_rows [OF inc v(2) v(3) v(4), of usr]
  have f: "json_field ''previousStatus''
      (visa_history_entry (js_string st) (claim_username usr) (now_iso e) (status a))
      = Some (column_value (status a))"
    by (simp add: visa_history_entry_def)
  show ?thesis
    unfolding Let_def
    apply (intro conjI)
    apply (rule R(1))
    apply (rule R(2))
    using R(3) apply blast
    apply simp
    apply (simp add: f)
    apply (rule R(4))
    done
qed


text \<open>
  Claim C1. For every valid status-transition request on any of the four application
  types, the persisted history is one entry longer than before, and the new entry's
  \<open>previousStatus\<close> is the status the application had before. The visa handler does
  this (\<open>visa_history_appended\<close>). The marriage and birth-certificate handlers run
  \<^verbatim>\<open>UPDATE ... SET status = ?, updated_at = NOW()\<close> and never write \<open>status_history\<close>,
  a column \<^verbatim>\<open>db.js\<close> declares for both tables; the travel-pass handler appends
  \<open>{status, timestamp}\<close>. On the sample store an administrator approves application 1
  of each type, which has the status \<open>pending\<close> and no history yet. The visa
  application gets a history of one entry whose \<open>previousStatus\<close> is \<open>pending\<close>. The
  marriage and the birth-certificate application are answered with 200 and get the new
  status, and their history is \<open>NULL\<close> as before: nothing was appended. The travel pass
  gets an entry that has no \<open>previousStatus\<close>.
\<close>

theorem status_history_not_written:
  "map status (marriage_applications sample_store) = [Some ''pending''] \<and>
   map status_history (marriage_applications sample_store) = [None] \<and>
   http_status (reply (marriage_status_route sample_env sample_store admin_headers 1
      (Some (JStr ''approved'')))) = 200 \<and>
   map status (marriage_applications (new_store (marriage_status_route sample_env sample_store
      admin_headers 1 (Some (JStr ''approved''))))) = [Some ''approved''] \<and>
   map status_history (marriage_applications (new_store (marriage_status_route sample_env
      sample_store admin_headers 1 (Some (JStr ''approved''))))) = [None] \<and>
   map status_history (birth_certificate_applications sample_store) = [None] \<and>
   http_status (reply (birth_status_route sample_env sample_store admin_headers 1
      (Some (JStr ''approved'')))) = 200 \<and>
   map status (birth_certificate_applications (new_store (birth_status_route sample_env
      sample_store admin_headers 1 (Some (JStr ''approved''))))) = [Some ''approved''] \<and>
   map status_history (birth_certificate_applications (new_store (birth_status_route sample_env
      sample_store admin_headers 1 (Some (JStr ''approved''))))) = [None] \<and>
   http_status (reply (travel_status_route sample_env sample_store admin_headers 1
      (Some (JStr ''issued'')))) = 200 \<and>
   map status_history (select_by_id (travel_pass_applications (new_store (travel_status_route
      sample_env sample_store admin_headers 1 (Some (JStr ''issued''))))) 1)
     = [Some ''[travel entry]''] \<and>
   JSON_parse sample_env ''[travel entry]'' = Some (JArr [sample_travel_entry]) \<and>
   json_field ''previousStatus'' sample_travel_entry = None \<and>
   map status_history (select_by_id (visa_applications (new_store (visa_status_route
      sample_env sample_store admin_headers 1 (Some (JStr ''approved''))))) 1)
     = [Some ''[visa entry]''] \<and>
   JSON_parse sample_env ''[visa entry]'' = Some (JArr [sample_entry]) \<and>
   json_field ''previousStatus'' sample_entry = Some (JStr ''pending'')"
  by (simp add: sample_defs middleware_defs status_defs Let_def)

section \<open>A status update for an id that no application has\<close>

text \<open>
  The visa handler looks the application up and answers 404 when there is none.
\<close>

lemma visa_status_not_found:
  assumes "js_includes visa_validStatuses st" "db_fault e \<noteq> Some 0"
    and "select_by_id (visa_applications s) i = []"
  shows "visa_status_handler e s usr i st = respond s 404 (ErrorBody ''Application not found'')"
proof -
  have "\<not> js_falsy st"
    using assms(1) by (rule js_includes_truthy) (simp add: visa_validStatuses_def)
  then show ?thesis
    using assms by (simp add: visa_status_handler_def)
qed

text \<open>
  The other three handlers run their \<^verbatim>\<open>UPDATE\<close> without a lookup of their own (the
  travel-pass handler reads the history of no row as empty): when no application has the
  id, nothing is changed and the answer is \<open>{success: true}\<close>.
\<close>

lemma update_by_id_absent: "select_by_id rows i = [] \<Longrightarrow> update_by_id f i rows = rows"
  by (induction rows) (auto simp: select_by_id_def update_by_id_def split: if_splits)

lemma status_update_without_lookup:
  assumes "db_fault e = None"
  shows "js_includes marriage_validStatuses st \<Longrightarrow>
           select_by_id (marriage_applications s) i = [] \<Longrightarrow>
           marriage_status_handler e s usr i st
             = \<lparr>new_store = s, reply = \<lparr>http_status = 200, body = Success\<rparr>, sent = []\<rparr>"
    and "js_includes birth_validStatuses st \<Longrightarrow>
           select_by_id (birth_certificate_applications s) i = [] \<Longrightarrow>
           birth_status_handler e s usr i st
             = \<lparr>new_store = s, reply = \<lparr>http_status = 200, body = Success\<rparr>, sent = []\<rparr>"
    and "js_includes travel_validStatuses st \<Longrightarrow>
           select_by_id (travel_pass_applications s) i = [] \<Longrightarrow>
           travel_status_handler e s usr i st
             = \<lparr>new_store = s, reply = \<lparr>http_status = 200, body = Success\<rparr>, sent = []\<rparr>"
proof -
  have truthy: "\<not> js_falsy st" if "js_includes marriage_validStatuses st \<or> js_includes birth_validStatuses st"
    using that
    by (auto dest!: js_includes_truthy simp: marriage_validStatuses_def birth_validStatuses_def)
  show "js_includes marriage_validStatuses st \<Longrightarrow>
           select_by_id (marriage_applications s) i = [] \<Longrightarrow>
           marriage_status_handler e s usr i st
             = \<lparr>new_store = s, reply = \<lparr>http_status = 200, body = Success\<rparr>, sent = []\<rparr>"
    using assms truthy by (simp add: marriage_status_handler_def update_by_id_absent)
  show "js_includes birth_validStatuses st \<Longrightarrow>
           select_by_id (birth_certificate_applications s) i = [] \<Longrightarrow>
           birth_status_handler e s usr i st
             = \<lparr>new_store = s, reply = \<lparr>http_status = 200, body = Success\<rparr>, sent = []\<rparr>"
    using assms truthy by (simp add: birth_status_handler_def update_by_id_absent)
  show "js_includes travel_validStatuses st \<Longrightarrow>
           select_by_id (travel_pass_applications s) i = [] \<Longrightarrow>
           travel_status_handler e s usr i st
             = \<lparr>new_store = s, reply = \<lparr>http_status = 200, body = Success\<rparr>, sent = []\<rparr>"
    using assms
    by (simp add: travel_status_handler_def travel_read_history_def update_by_id_absent)
qed

text \<open>
  Claim C2 at a failing input. No table of the sample store has an application 7. An
  administrator's request to set the status of marriage application 7, of birth
  certificate 7 and of travel pass 7 to \<open>approved\<close> is answered with 200 and
  \<open>{success: true}\<close>, and the store is as before: the three handlers run their
  \<^verbatim>\<open>UPDATE\<close> without looking at the number of rows it changed. The claim asks for 404.
\<close>

theorem status_update_unknown_id:
  "select_by_id (marriage_applications sample_store) 7 = [] \<and>
   select_by_id (birth_certificate_applications sample_store) 7 = [] \<and>
   select_by_id (travel_pass_applications sample_store) 7 = [] \<and>
   marriage_status_route sample_env sample_store admin_headers 7 (Some (JStr ''approved''))
     = \<lparr>new_store = sample_store, reply = \<lparr>http_status = 200, body = Success\<rparr>, sent = []\<rparr> \<and>
   birth_status_route sample_env sample_store admin_headers 7 (Some (JStr ''approved''))
     = \<lparr>new_store = sample_store, reply = \<lparr>http_status = 200, body = Success\<rparr>, sent = []\<rparr> \<and>
   travel_status_route sample_env sample_store admin_headers 7 (Some (JStr ''approved''))
     = \<lparr>new_store = sample_store, reply = \<lparr>http_status = 200, body = Success\<rparr>, sent = []\<rparr>"
  by (simp add: sample_defs middleware_defs status_defs)

section \<open>A stored history that does not parse\<close>

text \<open>
  The visa handler reads a history text that \<^verbatim>\<open>JSON.parse\<close> rejects as the empty
  array, and the update goes through.
\<close>

lemma visa_corrupt_history_tolerated:
  fixes usr :: claims
  assumes "js_includes visa_validStatuses st" "db_fault e = None"
    and "select_by_id (visa_applications s) i = a # rest"
    and "status_history a = Some txt" "JSON_parse e txt = None"
  shows "http_status (reply (visa_status_handler e s usr i st)) = 200"
    and "\<forall>r \<in> set (select_by_id (visa_applications (new_store (visa_status_handler e s usr i st))) i).
           status r = Some (js_string st) \<and>
           status_history r = Some (JSON_stringify e (JArr
             [visa_history_entry (js_string st) (claim_username usr) (now_iso e) (status a)]))"
proof -
  have h: "visa_read_history e (status_history a) = JArr []"
    using assms(4,5) by (simp add: visa_read_history_def)
  note R = visa_status_rows [OF assms(1,2,3) h, of usr]
  show "http_status (reply (visa_status_handler e s usr i st)) = 200"
    by (rule R(1))
  show "\<forall>r \<in> set (select_by_id (visa_applications (new_store (visa_status_handler e s usr i st))) i).
           status r = Some (js_string st) \<and>
           status_history r = Some (JSON_stringify e (JArr
             [visa_history_entry (js_string st) (claim_username usr) (now_iso e) (status a)]))"
    using R(3) by simp
qed

text \<open>
  The travel-pass handler parses the text inside the handler's \<^verbatim>\<open>try\<close>: a text that
  \<^verbatim>\<open>JSON.parse\<close> rejects ends the request with 500 before the \<^verbatim>\<open>UPDATE\<close>.
\<close>

lemma travel_corrupt_history_blocks:
  assumes "js_includes travel_validStatuses st" "db_fault e \<noteq> Some 0"
    and "select_by_id (travel_pass_applications s) i = a # rest"
    and "status_history a = Some txt" "txt \<noteq> []" "JSON_parse e txt = None"
  shows "travel_status_handler e s usr i st = server_error s"
  using assms by (simp add: travel_status_handler_def travel_read_history_def)

text \<open>
  Claim C3 at a failing input. Travel pass 2 of the sample store has the history text
  \<open>corrupt\<close>, which the parser rejects. An administrator's request to set its status to
  \<open>approved\<close> is answered with 500 and the store is as before (the status stays
  \<open>pending\<close>): the travel-pass handler calls \<^verbatim>\<open>JSON.parse\<close> with no \<^verbatim>\<open>try/catch\<close> of
  its own, and the handler's outer \<^verbatim>\<open>catch\<close> ends the request. The same request on visa
  application 2, whose history text is the same, is answered with 200.
\<close>

theorem travel_corrupt_history_fails:
  "map status_history (select_by_id (travel_pass_applications sample_store) 2)
     = [Some ''corrupt''] \<and>
   JSON_parse sample_env ''corrupt'' = None \<and>
   travel_status_route sample_env sample_store admin_headers 2 (Some (JStr ''approved''))
     = \<lparr>new_store = sample_store,
        reply = \<lparr>http_status = 500, body = ErrorBody ''Server error''\<rparr>, sent = []\<rparr> \<and>
   map status (select_by_id (travel_pass_applications sample_store) 2) = [Some ''pending''] \<and>
   map status_history (select_by_id (visa_applications sample_store) 2) = [Some ''corrupt''] \<and>
   http_status (reply (visa_status_route sample_env sample_store admin_headers 2
      (Some (JStr ''approved'')))) = 200"
  by (simp add: sample_defs middleware_defs status_defs Let_def)

section \<open>A notification that cannot be sent\<close>

text \<open>
  Claim C6. Only the visa status handler sends a notification. When the mail service is
  configured and the send fails, for a status of the enum, a database that answers, an
  application with the given id and a stored history that reads as an array: no mail is
  delivered, and the handler answers 200 with the application's id, the new and the old
  status; the answer and the store are those of the run in which the mail is delivered,
  so the application has the new status and the history with the new entry.
\<close>

theorem mail_failure_swallowed:
  fixes usr :: claims
  shows
  "SENDGRID_API_KEY e \<and> mail_fails e \<and>
   st \<in> {Some (JStr ''pending''), Some (JStr ''under_review''), Some (JStr ''approved''),
          Some (JStr ''denied''), Some (JStr ''shipped'')} \<and>
   db_fault e = None \<and>
   select_by_id (visa_applications s) i = a # rest \<and>
   visa_read_history e (status_history a) = JArr h \<longrightarrow>
     (let out = visa_status_handler e s usr i st;
          delivered = visa_status_handler (e\<lparr>mail_fails := False\<rparr>) s usr i st;
          entry = visa_history_entry (js_string st) (claim_username usr) (now_iso e) (status a);
          written = select_by_id (visa_applications (new_store out)) i
      in sent delivered = [visa_status_mail e a (js_string st)] \<and>
         sent out = [] \<and>
         reply out = \<lparr>http_status = 200,
                      body = StatusChanged (app_id a) (js_string st) (status a)\<rparr> \<and>
         reply out = reply delivered \<and>
         new_store out = new_store delivered \<and>
         written \<noteq> [] \<and>
         (\<forall>r \<in> set written. status r = Some (js_string st) \<and>
            status_history r = Some (JSON_stringify e (JArr (h @ [entry])))))"
proof
  assume A: "SENDGRID_API_KEY e \<and> mail_fails e \<and>
   st \<in> {Some (JStr ''pending''), Some (JStr ''under_review''), Some (JStr ''approved''),
          Some (JStr ''denied''), Some (JStr ''shipped'')} \<and>
   db_fault e = None \<and>
   select_by_id (visa_applications s) i = a # rest \<and>
   visa_read_history e (status_history a) = JArr h"
  then have inc: "js_includes visa_validStatuses st"
    by (intro visa_enum_includes) simp
  from A have key: "SENDGRID_API_KEY e" and fails: "mail_fails e" and nf: "db_fault e = None"
    and sel: "select_by_id (visa_applications s) i = a # rest"
    and hist: "visa_read_history e (status_history a) = JArr h"
    by simp_all
  let ?e' = "e\<lparr>mail_fails := False\<rparr>"
  have hist': "visa_read_history ?e' (status_history a) = JArr h"
  proof -
    have "visa_read_history ?e' (status_history a) = visa_read_history e (status_history a)"
      by (auto simp: visa_read_history_def split: option.splits)
    then show ?thesis using hist by simp
  qed
  have n0: "db_fault e \<noteq> Some 0" "db_fault e \<noteq> Some 1"
    by (simp_all add: nf)
  have n0': "db_fault ?e' \<noteq> Some 0" "db_fault ?e' \<noteq> Some 1"
    by (simp_all add: nf)
  note out = visa_status_success [OF inc n0 sel hist, of usr]
  note del = visa_status_success [OF inc n0' sel hist', of usr]
  note R = visa_status_rows [OF inc nf sel hist, of usr]
  show "let out = visa_status_handler e s usr i st;
          delivered = visa_status_handler (e\<lparr>mail_fails := False\<rparr>) s usr i st;
          entry = visa_history_entry (js_string st) (claim_username usr) (now_iso e) (status a);
          written = select_by_id (visa_applications (new_store out)) i
      in sent delivered = [visa_status_mail e a (js_string st)] \<and>
         sent out = [] \<and>
         reply out = \<lparr>http_status = 200,
                      body = StatusChanged (app_id a) (js_string st) (status a)\<rparr> \<and>
         reply out = reply delivered \<and>
         new_store out = new_store delivered \<and>
         written \<noteq> [] \<and>
         (\<forall>r \<in> set written. status r = Some (js_string st) \<and>
            status_history r = Some (JSON_stringify e (JArr (h @ [entry]))))"
    unfolding Let_def
    apply (intro conjI)
          apply (simp add: del send_mail_def key visa_status_mail_def)
         apply (simp add: out send_mail_def key fails)
        apply (simp add: out)
       apply (simp add: out del)
      apply (simp add: out del)
     apply (rule R(2))
    apply (rule R(3))
    done
qed

text \<open>
  The theorem on the sample store, with the mail service failing: the approval of visa
  application 1 is stored and answered, and the mail of the run without the failure is
  not delivered.
\<close>

theorem mail_failure_swallowed_witness:
  "SENDGRID_API_KEY (sample_env\<lparr>mail_fails := True\<rparr>) \<and>
   mail_fails (sample_env\<lparr>mail_fails := True\<rparr>) \<and>
   sent (visa_status_handler (sample_env\<lparr>mail_fails := True\<rparr>) sample_store admin_claims 1
          (Some (JStr ''approved''))) = [] \<and>
   sent (visa_status_handler sample_env sample_store admin_claims 1 (Some (JStr ''approved'')))
     = [\<lparr>mail_to = ''bob@example.com'', mail_from = ''no-reply@usrcaembassy.org'',
         mail_subject = ''Visa Application Status Update - APPROVED''\<rparr>] \<and>
   reply (visa_status_handler (sample_env\<lparr>mail_fails := True\<rparr>) sample_store admin_claims 1
          (Some (JStr ''approved'')))
     = \<lparr>http_status = 200, body = StatusChanged 1 ''approved'' (Some ''pending'')\<rparr> \<and>
   list_all (\<lambda>r. status r = Some ''approved'' \<and> status_history r = Some ''[visa entry]'')
     (select_by_id (visa_applications (new_store
        (visa_status_handler (sample_env\<lparr>mail_fails := True\<rparr>) sample_store admin_claims 1
           (Some (JStr ''approved''))))) 1)"
proof -
  let ?e = "sample_env\<lparr>mail_fails := True\<rparr>"
  let ?a = "sample_application 1 ''bob@example.com'' None"
  let ?st = "Some (JStr ''approved'')"
  have pre:
    "SENDGRID_API_KEY ?e \<and> mail_fails ?e \<and>
     ?st \<in> {Some (JStr ''pending''), Some (JStr ''under_review''),
       Some (JStr ''approved''), Some (JStr ''denied''), Some (JStr ''shipped'')} \<and>
     db_fault ?e = None \<and>
     select_by_id (visa_applications sample_store) 1 = ?a # [] \<and>
     visa_read_history ?e (status_history ?a) = JArr []"
    by (simp add: sample_defs select_by_id_def visa_read_history_def)
  note post = mail_failure_swallowed [of ?e ?st sample_store 1 ?a "[]" "[]" admin_claims,
      THEN mp, OF pre, unfolded Let_def]
  have same_env: "?e\<lparr>mail_fails := False\<rparr> = sample_env"
    by (simp add: sample_env_def)
  have p1: "sent (visa_status_handler sample_env sample_store admin_claims 1 ?st)
     = [\<lparr>mail_to = ''bob@example.com'', mail_from = ''no-reply@usrcaembassy.org'',
         mail_subject = ''Visa Application Status Update - APPROVED''\<rparr>]"
    using post [THEN conjunct1]
    by (simp add: same_env sample_defs visa_status_mail_def ascii_toUpperCase_def upper_char_def)
  have p2: "sent (visa_status_handler ?e sample_store admin_claims 1 ?st) = []"
    using post [THEN conjunct2, THEN conjunct1] .
  have p3: "reply (visa_status_handler ?e sample_store admin_claims 1 ?st)
     = \<lparr>http_status = 200, body = StatusChanged 1 ''approved'' (Some ''pending'')\<rparr>"
    using post [THEN conjunct2, THEN conjunct2, THEN conjunct1] by (simp add: sample_application_def)
  have p4: "\<forall>r \<in> set (select_by_id (visa_applications (new_store
        (visa_status_handler ?e sample_store admin_claims 1 ?st))) 1).
      status r = Some ''approved'' \<and> status_history r = Some ''[visa entry]''"
    using post [THEN conjunct2, THEN conjunct2, THEN conjunct2, THEN conjunct2, THEN conjunct2,
        THEN conjunct2]
    by (simp add: sample_defs visa_history_entry_def)
  show ?thesis
    using pre p1 p2 p3 p4 by (simp add: list_all_iff)
qed

section \<open>The answer of a successful status update\<close>

text \<open>
  A visa status update that is answered with 200 returns the id of the application it
  found, the new status (the string of the request) and the status the application had
  before.
\<close>

lemma visa_status_reply:
  assumes ok: "http_status (reply (visa_status_handler e s usr i st)) = 200"
  shows "\<exists>a rest. select_by_id (visa_applications s) i = a # rest \<and>
           st = Some (JStr (js_string st)) \<and>
           body (reply (visa_status_handler e s usr i st))
             = StatusChanged (app_id a) (js_string st) (status a)"
proof -
  from ok have inc: "js_includes visa_validStatuses st"
    by (auto simp: visa_status_handler_def respond_def split: if_splits)
  show ?thesis
    using ok js_includes_string [OF inc]
    by (auto simp: visa_status_handler_def respond_def server_error_def Let_def
             split: if_splits list.splits option.splits)
qed

text \<open>
  Claim C7. Every successful status update returns both the old and the new status to
  the caller, for each of the four application types. The visa handler does
  (\<open>visa_status_reply\<close>). The marriage, birth-certificate and travel-pass handlers
  never read the old status and answer \<^verbatim>\<open>res.json({ success: true })\<close>. On the sample
  store an administrator sets application 1 of each type, which has the status
  \<open>pending\<close>, to \<open>denied\<close>: the four requests are answered with 200 and the status is
  written; the visa answer carries the id, \<open>denied\<close> and \<open>pending\<close>, the other three
  answers are \<open>{success: true}\<close>, with neither status.
\<close>

theorem status_reply_without_status:
  "map status (select_by_id (marriage_applications sample_store) 1) = [Some ''pending''] \<and>
   map status (select_by_id (birth_certificate_applications sample_store) 1)
     = [Some ''pending''] \<and>
   map status (select_by_id (travel_pass_applications sample_store) 1) = [Some ''pending''] \<and>
   reply (marriage_status_route sample_env sample_store admin_headers 1 (Some (JStr ''denied'')))
     = \<lparr>http_status = 200, body = Success\<rparr> \<and>
   map status (select_by_id (marriage_applications (new_store (marriage_status_route
      sample_env sample_store admin_headers 1 (Some (JStr ''denied''))))) 1) = [Some ''denied''] \<and>
   reply (birth_status_route sample_env sample_store admin_headers 1 (Some (JStr ''denied'')))
     = \<lparr>http_status = 200, body = Success\<rparr> \<and>
   map status (select_by_id (birth_certificate_applications (new_store (birth_status_route
      sample_env sample_store admin_headers 1 (Some (JStr ''denied''))))) 1) = [Some ''denied''] \<and>
   reply (travel_status_route sample_env sample_store admin_headers 1 (Some (JStr ''denied'')))
     = \<lparr>http_status = 200, body = Success\<rparr> \<and>
   map status (select_by_id (travel_pass_applications (new_store (travel_status_route
      sample_env sample_store admin_headers 1 (Some (JStr ''denied''))))) 1) = [Some ''denied''] \<and>
   reply (visa_status_route sample_env sample_store admin_headers 1 (Some (JStr ''denied'')))
     = \<lparr>http_status = 200, body = StatusChanged 1 ''denied'' (Some ''pending'')\<rparr>"
  by (simp add: sample_defs middleware_defs status_defs Let_def)

section \<open>Reading another user's applications\<close>

lemma set_order_desc: "set (order_desc rows) = set rows"
  by (simp add: order_desc_def)

lemma detail_foreign:
  assumes "\<not> isAdmin usr" "db_fault e \<noteq> Some 0"
    and "select_by_id table i = a # rest" "user_name a \<noteq> claim_username usr"
  shows "detail_handler e s table usr i = respond s 403 (ErrorBody ''Access denied'')"
    and "pdf_handler e s table usr i = respond s 403 (ErrorBody ''Access denied'')"
  using assms by (auto simp: detail_handler_def pdf_handler_def)

lemma list_foreign:
  assumes "\<not> isAdmin usr" "name \<noteq> []" "toLowerCase e name \<noteq> claim_username usr"
  shows "user_list_handler e s table usr name = respond s 403 (ErrorBody ''Access denied'')"
  using assms by (auto simp: user_list_handler_def)

lemma travel_list_foreign:
  assumes "\<not> isAdmin usr" "name \<noteq> claim_username usr"
  shows "travel_user_list_handler e s usr name = respond s 403 (ErrorBody ''Forbidden'')"
  using assms by (auto simp: travel_user_list_handler_def)

lemma with_auth_passes:
  "authMiddleware e h = Inr usr \<Longrightarrow> with_auth e s h handler = handler usr"
  by (simp add: with_auth_def)

lemma own_rows_only:
  assumes "\<not> isAdmin usr"
  shows "body (reply (detail_handler e s table usr i)) = Row r \<Longrightarrow> user_name r = claim_username usr"
    and "body (reply (pdf_handler e s table usr i)) = Pdf r \<Longrightarrow> user_name r = claim_username usr"
    and "body (reply (user_list_handler e s table usr name)) = Rows rows \<Longrightarrow>
           r \<in> set rows \<Longrightarrow> user_name r = claim_username usr"
    and "body (reply (travel_user_list_handler e s usr name)) = Rows rows \<Longrightarrow>
           r \<in> set rows \<Longrightarrow> user_name r = claim_username usr"
  using assms
  by (auto simp: detail_handler_def pdf_handler_def user_list_handler_def
        travel_user_list_handler_def respond_def server_error_def set_order_desc
        split: if_splits list.splits)

text \<open>
  Claim C5. A request that passes \<^verbatim>\<open>authMiddleware\<close> as a caller who is no
  administrator, and that reads an application of another owner, is answered with 403
  and the fixed error object, which holds nothing of the store:
  \<^item> detail and PDF by id, for each of the four types, when the application with that id
    has a \<open>user_name\<close> other than the caller's (and the database answers the lookup);
  \<^item> the list by user name, for visa, marriage and birth certificate, when the name in
    lower case (\<^verbatim>\<open>username.toLowerCase()\<close> of the engine, the \<open>user_name\<close> the query
    selects) is not the caller's;
  \<^item> the travel-pass list by user name, when the name is not the caller's.
  The lists are refused before any query. (\<open>own_rows_only\<close> above adds that whatever
  such a caller is sent by these handlers is a row of their own.)
\<close>

theorem foreign_reads_denied:
  "authMiddleware e h = Inr usr \<and> \<not> isAdmin usr \<longrightarrow>
     (db_fault e \<noteq> Some 0 \<and> select_by_id (visa_applications s) iv = av # rv \<and>
      user_name av \<noteq> claim_username usr \<longrightarrow>
        reply (visa_detail_route e s h iv)
          = \<lparr>http_status = 403, body = ErrorBody ''Access denied''\<rparr> \<and>
        reply (visa_pdf_route e s h iv)
          = \<lparr>http_status = 403, body = ErrorBody ''Access denied''\<rparr>) \<and>
     (db_fault e \<noteq> Some 0 \<and> select_by_id (marriage_applications s) im = am # rm \<and>
      user_name am \<noteq> claim_username usr \<longrightarrow>
        reply (marriage_detail_route e s h im)
          = \<lparr>http_status = 403, body = ErrorBody ''Access denied''\<rparr> \<and>
        reply (marriage_pdf_route e s h im)
          = \<lparr>http_status = 403, body = ErrorBody ''Access denied''\<rparr>) \<and>
     (db_fault e \<noteq> Some 0 \<and> select_by_id (birth_certificate_applications s) ib = ab # rb \<and>
      user_name ab \<noteq> claim_username usr \<longrightarrow>
        reply (birth_detail_route e s h ib)
          = \<lparr>http_status = 403, body = ErrorBody ''Access denied''\<rparr> \<and>
        reply (birth_pdf_route e s h ib)
          = \<lparr>http_status = 403, body = ErrorBody ''Access denied''\<rparr>) \<and>
     (db_fault e \<noteq> Some 0 \<and> select_by_id (travel_pass_applications s) it = at # rt \<and>
      user_name at \<noteq> claim_username usr \<longrightarrow>
        reply (travel_detail_route e s h it)
          = \<lparr>http_status = 403, body = ErrorBody ''Access denied''\<rparr> \<and>
        reply (travel_pdf_route e s h it)
          = \<lparr>http_status = 403, body = ErrorBody ''Access denied''\<rparr>) \<and>
     (name \<noteq> [] \<and> toLowerCase e name \<noteq> claim_username usr \<longrightarrow>
        reply (visa_user_list_route e s h name)
          = \<lparr>http_status = 403, body = ErrorBody ''Access denied''\<rparr> \<and>
        reply (marriage_user_list_route e s h name)
          = \<lparr>http_status = 403, body = ErrorBody ''Access denied''\<rparr> \<and>
        reply (birth_user_list_route e s h name)
          = \<lparr>http_status = 403, body = ErrorBody ''Access denied''\<rparr>) \<and>
     (name \<noteq> claim_username usr \<longrightarrow>
        reply (travel_user_list_route e s h name)
          = \<lparr>http_status = 403, body = ErrorBody ''Forbidden''\<rparr>)"
proof (intro impI, elim conjE)
  assume auth: "authMiddleware e h = Inr usr" and user: "\<not> isAdmin usr"
  note routes = visa_detail_route_def visa_pdf_route_def marriage_detail_route_def
    marriage_pdf_route_def birth_detail_route_def birth_pdf_route_def travel_detail_route_def
    travel_pdf_route_def visa_user_list_route_def marriage_user_list_route_def
    birth_user_list_route_def travel_user_list_route_def
  show "(db_fault e \<noteq> Some 0 \<and> select_by_id (visa_applications s) iv = av # rv \<and>
      user_name av \<noteq> claim_username usr \<longrightarrow>
        reply (visa_detail_route e s h iv)
          = \<lparr>http_status = 403, body = ErrorBody ''Access denied''\<rparr> \<and>
        reply (visa_pdf_route e s h iv)
          = \<lparr>http_status = 403, body = ErrorBody ''Access denied''\<rparr>) \<and>
     (db_fault e \<noteq> Some 0 \<and> select_by_id (marriage_applications s) im = am # rm \<and>
      user_name am \<noteq> claim_username usr \<longrightarrow>
        reply (marriage_detail_route e s h im)
          = \<lparr>http_status = 403, body = ErrorBody ''Access denied''\<rparr> \<and>
        reply (marriage_pdf_route e s h im)
          = \<lparr>http_status = 403, body = ErrorBody ''Access denied''\<rparr>) \<and>
     (db_fault e \<noteq> Some 0 \<and> select_by_id (birth_certificate_applications s) ib = ab # rb \<and>
      user_name ab \<noteq> claim_username usr \<longrightarrow>
        reply (birth_detail_route e s h ib)
          = \<lparr>http_status = 403, body = ErrorBody ''Access denied''\<rparr> \<and>
        reply (birth_pdf_route e s h ib)
          = \<lparr>http_status = 403, body = ErrorBody ''Access denied''\<rparr>) \<and>
     (db_fault e \<noteq> Some 0 \<and> select_by_id (travel_pass_applications s) it = at # rt \<and>
      user_name at \<noteq> claim_username usr \<longrightarrow>
        reply (travel_detail_route e s h it)
          = \<lparr>http_status = 403, body = ErrorBody ''Access denied''\<rparr> \<and>
        reply (travel_pdf_route e s h it)
          = \<lparr>http_status = 403, body = ErrorBody ''Access denied''\<rparr>) \<and>
     (name \<noteq> [] \<and> toLowerCase e name \<noteq> claim_username usr \<longrightarrow>
        reply (visa_user_list_route e s h name)
          = \<lparr>http_status = 403, body = ErrorBody ''Access denied''\<rparr> \<and>
        reply (marriage_user_list_route e s h name)
          = \<lparr>http_status = 403, body = ErrorBody ''Access denied''\<rparr> \<and>
        reply (birth_user_list_route e s h name)
          = \<lparr>http_status = 403, body = ErrorBody ''Access denied''\<rparr>) \<and>
     (name \<noteq> claim_username usr \<longrightarrow>
        reply (travel_user_list_route e s h name)
          = \<lparr>http_status = 403, body = ErrorBody ''Forbidden''\<rparr>)"
    by (intro conjI impI; (elim conjE)?)
       (simp_all add: routes with_auth_passes [OF auth] detail_foreign [OF user]
          list_foreign [OF user] travel_list_foreign [OF user] respond_def)
qed


text \<open>
  The theorem for the sample caller \<open>bob@example.com\<close>, who presents their token in the
  cookie and asks for the applications of \<open>alice@example.com\<close>.
\<close>

theorem foreign_reads_denied_witness:
  "authMiddleware sample_env bob_headers = Inr bob_claims \<and>
   map user_name (select_by_id (visa_applications sample_store) 2) = [''alice@example.com''] \<and>
   reply (visa_detail_route sample_env sample_store bob_headers 2)
     = \<lparr>http_status = 403, body = ErrorBody ''Access denied''\<rparr> \<and>
   reply (visa_pdf_route sample_env sample_store bob_headers 2)
     = \<lparr>http_status = 403, body = ErrorBody ''Access denied''\<rparr> \<and>
   reply (marriage_detail_route sample_env sample_store bob_headers 1)
     = \<lparr>http_status = 403, body = ErrorBody ''Access denied''\<rparr> \<and>
   reply (marriage_pdf_route sample_env sample_store bob_headers 1)
     = \<lparr>http_status = 403, body = ErrorBody ''Access denied''\<rparr> \<and>
   reply (birth_detail_route sample_env sample_store bob_headers 1)
     = \<lparr>http_status = 403, body = ErrorBody ''Access denied''\<rparr> \<and>
   reply (birth_pdf_route sample_env sample_store bob_headers 1)
     = \<lparr>http_status = 403, body = ErrorBody ''Access denied''\<rparr> \<and>
   reply (travel_detail_route sample_env sample_store bob_headers 2)
     = \<lparr>http_status = 403, body = ErrorBody ''Access denied''\<rparr> \<and>
   reply (travel_pdf_route sample_env sample_store bob_headers 2)
     = \<lparr>http_status = 403, body = ErrorBody ''Access denied''\<rparr> \<and>
   reply (visa_user_list_route sample_env sample_store bob_headers ''Alice@example.com'')
     = \<lparr>http_status = 403, body = ErrorBody ''Access denied''\<rparr> \<and>
   reply (marriage_user_list_route sample_env sample_store bob_headers ''Alice@example.com'')
     = \<lparr>http_status = 403, body = ErrorBody ''Access denied''\<rparr> \<and>
   reply (birth_user_list_route sample_env sample_store bob_headers ''Alice@example.com'')
     = \<lparr>http_status = 403, body = ErrorBody ''Access denied''\<rparr> \<and>
   reply (travel_user_list_route sample_env sample_store bob_headers ''Alice@example.com'')
     = \<lparr>http_status = 403, body = ErrorBody ''Forbidden''\<rparr>"
proof -
  let ?alice = "\<lambda>i h. sample_application i ''alice@example.com'' h"
  have auth: "authMiddleware sample_env bob_headers = Inr bob_claims \<and> \<not> isAdmin bob_claims"
    by (simp add: sample_defs authMiddleware_def verifyToken_def)
  have pre:
    "db_fault sample_env \<noteq> Some 0 \<and>
     select_by_id (visa_applications sample_store) 2 = ?alice 2 (Some ''corrupt'') # [] \<and>
     user_name (?alice 2 (Some ''corrupt'')) \<noteq> claim_username bob_claims"
    "db_fault sample_env \<noteq> Some 0 \<and>
     select_by_id (marriage_applications sample_store) 1 = ?alice 1 None # [] \<and>
     user_name (?alice 1 None) \<noteq> claim_username bob_claims"
    "db_fault sample_env \<noteq> Some 0 \<and>
     select_by_id (birth_certificate_applications sample_store) 1 = ?alice 1 None # [] \<and>
     user_name (?alice 1 None) \<noteq> claim_username bob_claims"
    "db_fault sample_env \<noteq> Some 0 \<and>
     select_by_id (travel_pass_applications sample_store) 2 = ?alice 2 (Some ''corrupt'') # [] \<and>
     user_name (?alice 2 (Some ''corrupt'')) \<noteq> claim_username bob_claims"
    "''Alice@example.com'' \<noteq> [] \<and> toLowerCase sample_env ''Alice@example.com'' \<noteq> claim_username bob_claims"
    "''Alice@example.com'' \<noteq> claim_username bob_claims"
    by (simp_all add: sample_defs select_by_id_def ascii_toLowerCase_def lower_char_def)
  note T = foreign_reads_denied [of sample_env bob_headers bob_claims sample_store
      2 "?alice 2 (Some ''corrupt'')" "[]" 1 "?alice 1 None" "[]" 1 "?alice 1 None" "[]"
      2 "?alice 2 (Some ''corrupt'')" "[]" "''Alice@example.com''", THEN mp, OF auth]
  note v = T [THEN conjunct1, THEN mp, OF pre(1)]
  note m = T [THEN conjunct2, THEN conjunct1, THEN mp, OF pre(2)]
  note b = T [THEN conjunct2, THEN conjunct2, THEN conjunct1, THEN mp, OF pre(3)]
  note t = T [THEN conjunct2, THEN conjunct2, THEN conjunct2, THEN conjunct1, THEN mp, OF pre(4)]
  note l = T [THEN conjunct2, THEN conjunct2, THEN conjunct2, THEN conjunct2, THEN conjunct1,
      THEN mp, OF pre(5)]
  note tl = T [THEN conjunct2, THEN conjunct2, THEN conjunct2, THEN conjunct2, THEN conjunct2,
      THEN mp, OF pre(6)]
  have owner: "map user_name (select_by_id (visa_applications sample_store) 2)
      = [''alice@example.com'']"
    by (simp add: sample_defs select_by_id_def)
  show ?thesis
    using auth owner v m b t l tl by simp
qed

section \<open>Starting a chat conversation twice\<close>








section \<open>Tokens and the administrator flag\<close>

lemma auth_no_token:
  assumes "issued_token (body (reply (with_auth e s h f))) = Some t"
  shows "\<exists>usr. issued_token (body (reply (f usr))) = Some t"
  using assms
  by (auto simp: with_auth_def authMiddleware_def Let_def
      split: sum.splits option.splits if_splits)

lemma admin_no_token:
  assumes "issued_token (body (reply (with_admin e s h f))) = Some t"
  shows "\<exists>usr. issued_token (body (reply (f usr))) = Some t"
proof -
  from auth_no_token [OF assms [unfolded with_admin_def]]
  show ?thesis
    by (auto simp: adminMiddleware_def split: option.splits if_splits)
qed

lemma status_no_token:
  "issued_token (body (reply (visa_status_handler e s usr i st))) = None"
  "issued_token (body (reply (marriage_status_handler e s usr i st))) = None"
  "issued_token (body (reply (birth_status_handler e s usr i st))) = None"
  "issued_token (body (reply (travel_status_handler e s usr i st))) = None"
  by (auto simp: visa_status_handler_def marriage_status_handler_def birth_status_handler_def
        travel_status_handler_def respond_def server_error_def Let_def
      split: list.splits option.splits)

lemma tracking_no_token:
  "issued_token (body (reply (visa_tracking_handler e s usr i tn c))) = None"
  "issued_token (body (reply (marriage_tracking_handler e s usr i tn c))) = None"
  "issued_token (body (reply (birth_tracking_handler e s usr i tn c))) = None"
  "issued_token (body (reply (travel_tracking_handler e s usr i tn c))) = None"
  by (auto simp: visa_tracking_handler_def marriage_tracking_handler_def
        birth_tracking_handler_def travel_tracking_handler_def respond_def server_error_def
      split: list.splits option.splits)

lemma create_no_token:
  "issued_token (body (reply (case handleValidationErrors (fst (visa_chain e f)) of
      Some r \<Rightarrow> \<lparr>new_store = s, reply = r, sent = []\<rparr>
    | None \<Rightarrow> visa_create_handler e s usr (snd (visa_chain e f))))) = None"
  "issued_token (body (reply (marriage_create_handler e s usr f))) = None"
  "issued_token (body (reply (birth_create_handler e s usr f))) = None"
  "issued_token (body (reply (travel_create_handler e s usr f))) = None"
  by (auto simp: visa_create_handler_def marriage_create_handler_def birth_create_handler_def
        travel_create_handler_def handleValidationErrors_def respond_def server_error_def Let_def
      split: list.splits option.splits)

lemma read_no_token:
  "issued_token (body (reply (detail_handler e s table usr i))) = None"
  "issued_token (body (reply (pdf_handler e s table usr i))) = None"
  "issued_token (body (reply (user_list_handler e s table usr name))) = None"
  "issued_token (body (reply (travel_user_list_handler e s usr name))) = None"
  by (auto simp: detail_handler_def pdf_handler_def user_list_handler_def
        travel_user_list_handler_def respond_def server_error_def
      split: list.splits)

lemma chat_no_token:
  "issued_token (body (reply (chat_conversation_handler e s cb))) = None"
  "issued_token (body (reply (chat_message_handler e s mb))) = None"
  "issued_token (body (reply (chat_admin_reply_handler e s usr cid msg))) = None"
  "issued_token (body (reply (chat_close_handler e s usr i))) = None"
  by (auto simp: chat_conversation_handler_def chat_message_handler_def
        chat_admin_reply_handler_def chat_close_handler_def respond_def server_error_def
      split: list.splits option.splits)

lemmas route_defs =
  visa_create_route_def marriage_create_route_def birth_create_route_def
  travel_create_route_def visa_status_route_def marriage_status_route_def
  birth_status_route_def travel_status_route_def visa_tracking_route_def
  marriage_tracking_route_def birth_tracking_route_def travel_tracking_route_def
  visa_detail_route_def marriage_detail_route_def birth_detail_route_def
  travel_detail_route_def visa_pdf_route_def marriage_pdf_route_def birth_pdf_route_def
  travel_pdf_route_def visa_user_list_route_def marriage_user_list_route_def
  birth_user_list_route_def travel_user_list_route_def chat_admin_reply_route_def
  chat_close_route_def

lemmas no_token =
  status_no_token tracking_no_token create_no_token read_no_token chat_no_token

lemma only_accounts_issue_tokens:
  assumes "issued_token (body (reply (serve e s r))) = Some t"
  shows "(\<exists>b. r = Signup b) \<or> (\<exists>b. r = Login b)"
  using assms
  by (cases r)
     (auto simp: route_defs no_token dest!: auth_no_token admin_no_token)

lemma signup_token:
  assumes "issued_token (body (reply (signup_route e s b))) = Some t"
  shows "t = generateToken e
           \<lparr>claim_id = insertId (map login_id (login s)),
            claim_username = toLowerCase e (su_username (snd (signup_chain e b))),
            isAdmin = False\<rparr>"
  using assms
  by (auto simp: signup_route_def signup_handler_def handleValidationErrors_def respond_def
        server_error_def Let_def split: list.splits if_splits)

lemma login_token:
  assumes "issued_token (body (reply (login_route e s b))) = Some t"
  shows "\<exists>usr \<in> set (login s).
           t = generateToken e
                 \<lparr>claim_id = login_id usr, claim_username = username usr,
                  isAdmin = str_includes (username usr) ''admin''\<rparr>"
proof -
  have mem: "x \<in> set xs" if "filter P xs = x # rest" for P and x :: user and xs rest
  proof -
    have "x \<in> set (filter P xs)" by (simp add: that)
    then show ?thesis by simp
  qed
  show ?thesis
    using assms
    by (auto simp: login_route_def login_handler_def handleValidationErrors_def respond_def
          server_error_def Let_def split: list.splits if_splits dest: mem)
qed


text \<open>
  Claim C10. Whatever token a signup issues is the signature of a payload with
  \<open>isAdmin = False\<close>, for every user name, also one that contains \<open>admin\<close>. A token
  that a login issues is the signature of the payload of a stored user whose
  \<open>isAdmin\<close> is the test whether the stored user name contains \<open>admin\<close>. No other
  request of the server issues a token, so a payload with \<open>isAdmin = True\<close> comes from
  a login only.
\<close>

theorem signup_token_not_admin:
  "(\<forall>t. issued_token (body (reply (signup_route e s bs))) = Some t \<longrightarrow>
        t = generateToken e
              \<lparr>claim_id = insertId (map login_id (login s)),
               claim_username = toLowerCase e (su_username (snd (signup_chain e bs))),
               isAdmin = False\<rparr>) \<and>
   (\<forall>t. issued_token (body (reply (login_route e s bl))) = Some t \<longrightarrow>
        (\<exists>usr \<in> set (login s).
           t = generateToken e
                 \<lparr>claim_id = login_id usr, claim_username = username usr,
                  isAdmin = str_includes (username usr) ''admin''\<rparr>)) \<and>
   (\<forall>r t. issued_token (body (reply (serve e s r))) = Some t \<longrightarrow>
        (\<exists>b. r = Signup b) \<or> (\<exists>b. r = Login b))"
  using signup_token login_token only_accounts_issue_tokens by blast

text \<open>
  The theorem for the signup of \<open>Admin@Embassy.org\<close> on the empty store: the user name
  contains \<open>admin\<close> and the token is that of the payload with \<open>isAdmin = False\<close>; the
  login that follows issues the token of the payload with \<open>isAdmin = True\<close>.
\<close>

theorem signup_token_not_admin_witness:
  "str_includes (toLowerCase sample_env (su_username sample_signup)) ''admin'' \<and>
   issued_token (body (reply (signup_route sample_env empty_store sample_signup)))
     = Some ''jwt:admin@embassy.org:user'' \<and>
   generateToken sample_env
     \<lparr>claim_id = 1, claim_username = ''admin@embassy.org'', isAdmin = False\<rparr>
     = ''jwt:admin@embassy.org:user'' \<and>
   issued_token (body (reply (login_route sample_env
       (new_store (signup_route sample_env empty_store sample_signup)) sample_login)))
     = Some ''jwt:admin@embassy.org:admin'' \<and>
   generateToken sample_env
     \<lparr>claim_id = 1, claim_username = ''admin@embassy.org'', isAdmin = True\<rparr>
     = ''jwt:admin@embassy.org:admin''"
proof -
  let ?out1 = "signup_route sample_env empty_store sample_signup"
  have lower: "toLowerCase sample_env (su_username sample_signup) = ''admin@embassy.org''"
    by (simp add: sample_signup_def sample_env_def ascii_toLowerCase_def lower_char_def)
  have inc: "str_includes ''admin@embassy.org'' ''admin''"
    by (simp add: startsWith_def)
  have first: "?out1 =
      \<lparr>new_store = empty_store\<lparr>login :=
          [\<lparr>login_id = 1, username = ''admin@embassy.org'', password = ''hash:Secret#123'',
            firstname = ''Ada'', lastname = ''Min'', login_created_at = 100\<rparr>]\<rparr>,
       reply = \<lparr>http_status = 200,
                body = Session ''jwt:admin@embassy.org:user''
                  \<lparr>info_id = 1, info_username = ''admin@embassy.org'',
                   info_fullName = ''Ada Min'', info_isAdmin = False\<rparr>\<rparr>,
       sent = []\<rparr>"
    by (simp add: signup_route_def signup_handler_def handleValidationErrors_def
          generateToken_def insertId_def sample_env_def empty_store_def Let_def
          sample_signup_def ascii_toLowerCase_def lower_char_def)
  have t1: "issued_token (body (reply ?out1)) = Some ''jwt:admin@embassy.org:user''"
    by (simp add: first)
  have second: "issued_token (body (reply (login_route sample_env (new_store ?out1) sample_login)))
      = Some ''jwt:admin@embassy.org:admin''"
    unfolding first
    by (simp add: login_route_def login_handler_def handleValidationErrors_def
          generateToken_def sample_env_def empty_store_def sample_login_def respond_def
          ascii_toLowerCase_def lower_char_def startsWith_def Let_def)
  note T = signup_token_not_admin [of sample_env empty_store sample_signup]
  have g1: "''jwt:admin@embassy.org:user'' = generateToken sample_env
      \<lparr>claim_id = insertId (map login_id (login empty_store)),
       claim_username = toLowerCase sample_env (su_username (snd (signup_chain sample_env sample_signup))),
       isAdmin = False\<rparr>"
    by (rule T [THEN conjunct1, THEN spec, THEN mp, OF t1])
  have g1': "generateToken sample_env
     \<lparr>claim_id = 1, claim_username = ''admin@embassy.org'', isAdmin = False\<rparr>
     = ''jwt:admin@embassy.org:user''"
    using g1 lower by (simp add: insertId_def empty_store_def sample_env_def)
  have g2: "generateToken sample_env
     \<lparr>claim_id = 1, claim_username = ''admin@embassy.org'', isAdmin = True\<rparr>
     = ''jwt:admin@embassy.org:admin''"
    by (simp add: generateToken_def sample_env_def)
  show ?thesis
    using inc t1 second g1' g2 by (simp add: lower)
qed

section \<open>The status of every stored application\<close>

text \<open>
  The two ways the handlers mean to write a status: a row that a submission adds has
  the status \<open>pending\<close>, and a row that a status update has changed has the status of
  the request, which passed the handler's membership check.
\<close>

lemma with_auth_cases:
  assumes "Q s" "\<And>usr. Q (new_store (f usr))"
  shows "Q (new_store (with_auth e s h f))"
  using assms by (simp add: with_auth_def split: sum.splits)

lemma with_admin_cases:
  assumes "Q s" "\<And>usr. Q (new_store (f usr))"
  shows "Q (new_store (with_admin e s h f))"
  unfolding with_admin_def
  by (rule with_auth_cases) (use assms in \<open>auto split: option.splits\<close>)

lemma created_rows_pending:
  "\<forall>r \<in> set (visa_applications (new_store (visa_create_route e s h f))).
      r \<in> set (visa_applications s) \<or> status r = Some ''pending''"
  "\<forall>r \<in> set (marriage_applications (new_store (marriage_create_route e s h f))).
      r \<in> set (marriage_applications s) \<or> status r = Some ''pending''"
  "\<forall>r \<in> set (birth_certificate_applications (new_store (birth_create_route e s h f))).
      r \<in> set (birth_certificate_applications s) \<or> status r = Some ''pending''"
  "\<forall>r \<in> set (travel_pass_applications (new_store (travel_create_route e s h f))).
      r \<in> set (travel_pass_applications s) \<or> status r = Some ''pending''"
proof -
  show "\<forall>r \<in> set (visa_applications (new_store (visa_create_route e s h f))).
      r \<in> set (visa_applications s) \<or> status r = Some ''pending''"
    unfolding visa_create_route_def
    by (rule with_auth_cases)
       (auto simp: visa_create_handler_def new_application_def server_error_def respond_def
          Let_def split: option.splits)
  show "\<forall>r \<in> set (marriage_applications (new_store (marriage_create_route e s h f))).
      r \<in> set (marriage_applications s) \<or> status r = Some ''pending''"
    unfolding marriage_create_route_def
    by (rule with_auth_cases)
       (auto simp: marriage_create_handler_def new_application_def server_error_def respond_def
          Let_def)
  show "\<forall>r \<in> set (birth_certificate_applications (new_store (birth_create_route e s h f))).
      r \<in> set (birth_certificate_applications s) \<or> status r = Some ''pending''"
    unfolding birth_create_route_def
    by (rule with_auth_cases)
       (auto simp: birth_create_handler_def new_application_def server_error_def respond_def
          Let_def)
  show "\<forall>r \<in> set (travel_pass_applications (new_store (travel_create_route e s h f))).
      r \<in> set (travel_pass_applications s) \<or> status r = Some ''pending''"
    unfolding travel_create_route_def
    by (rule with_auth_cases)
       (auto simp: travel_create_handler_def new_application_def server_error_def respond_def
          Let_def)
qed

text \<open>
  A submission that passes \<^verbatim>\<open>authMiddleware\<close> (and, for a visa, the validation chain)
  adds one row when the database accepts the \<^verbatim>\<open>INSERT\<close>, and its status is \<open>pending\<close>.
\<close>

lemma created_rows_stored:
  assumes "authMiddleware e h = Inr usr" "db_fault e \<noteq> Some 0"
  shows "fst (visa_chain e f) = [] \<Longrightarrow>
           visa_applications (new_store (visa_create_route e s h f))
             = visa_applications s @
               [new_application e (visa_applications s) None (toLowerCase e (claim_username usr))
                  (snd (visa_chain e f))]"
    and "marriage_applications (new_store (marriage_create_route e s h f))
           = marriage_applications s @
             [new_application e (marriage_applications s) None
                (toLowerCase e (claim_username usr)) f]"
    and "birth_certificate_applications (new_store (birth_create_route e s h f))
           = birth_certificate_applications s @
             [new_application e (birth_certificate_applications s) None
                (toLowerCase e (claim_username usr)) f]"
    and "travel_pass_applications (new_store (travel_create_route e s h f))
           = travel_pass_applications s @
             [new_application e (travel_pass_applications s) (Some (claim_id usr))
                (claim_username usr) f]"
    and "status (new_application e rows uid name f) = Some ''pending''"
  using assms
  by (simp_all add: visa_create_route_def marriage_create_route_def birth_create_route_def
        travel_create_route_def with_auth_def handleValidationErrors_def
        visa_create_handler_def marriage_create_handler_def birth_create_handler_def
        travel_create_handler_def new_application_def Let_def)

lemma updated_rows:
  "r \<in> set (update_by_id f i rows) \<Longrightarrow> r \<in> set rows \<or> (\<exists>r0 \<in> set rows. r = f r0)"
  by (auto simp: update_by_id_def split: if_splits)

lemma status_rows_checked:
  "\<forall>r \<in> set (visa_applications (new_store (visa_status_route e s h i st))).
      r \<in> set (visa_applications s) \<or>
      (\<exists>v \<in> set visa_validStatuses. st = Some (JStr v) \<and> status r = Some v)"
  "\<forall>r \<in> set (marriage_applications (new_store (marriage_status_route e s h i st))).
      r \<in> set (marriage_applications s) \<or>
      (\<exists>v \<in> set marriage_validStatuses. st = Some (JStr v) \<and> status r = Some v)"
  "\<forall>r \<in> set (birth_certificate_applications (new_store (birth_status_route e s h i st))).
      r \<in> set (birth_certificate_applications s) \<or>
      (\<exists>v \<in> set birth_validStatuses. st = Some (JStr v) \<and> status r = Some v)"
  "\<forall>r \<in> set (travel_pass_applications (new_store (travel_status_route e s h i st))).
      r \<in> set (travel_pass_applications s) \<or>
      (\<exists>v \<in> set travel_validStatuses. st = Some (JStr v) \<and> status r = Some v)"
proof -
  show "\<forall>r \<in> set (visa_applications (new_store (visa_status_route e s h i st))).
      r \<in> set (visa_applications s) \<or>
      (\<exists>v \<in> set visa_validStatuses. st = Some (JStr v) \<and> status r = Some v)"
    unfolding visa_status_route_def
    by (rule with_admin_cases)
       (auto simp: visa_status_handler_def server_error_def respond_def Let_def
          js_includes_iff split: option.splits list.splits dest!: updated_rows)
  show "\<forall>r \<in> set (marriage_applications (new_store (marriage_status_route e s h i st))).
      r \<in> set (marriage_applications s) \<or>
      (\<exists>v \<in> set marriage_validStatuses. st = Some (JStr v) \<and> status r = Some v)"
    unfolding marriage_status_route_def
    by (rule with_admin_cases)
       (auto simp: marriage_status_handler_def server_error_def respond_def
          js_includes_iff dest!: updated_rows)
  show "\<forall>r \<in> set (birth_certificate_applications (new_store (birth_status_route e s h i st))).
      r \<in> set (birth_certificate_applications s) \<or>
      (\<exists>v \<in> set birth_validStatuses. st = Some (JStr v) \<and> status r = Some v)"
    unfolding birth_status_route_def
    by (rule with_admin_cases)
       (auto simp: birth_status_handler_def server_error_def respond_def
          js_includes_iff dest!: updated_rows)
  show "\<forall>r \<in> set (travel_pass_applications (new_store (travel_status_route e s h i st))).
      r \<in> set (travel_pass_applications s) \<or>
      (\<exists>v \<in> set travel_validStatuses. st = Some (JStr v) \<and> status r = Some v)"
    unfolding travel_status_route_def
    by (rule with_admin_cases)
       (auto simp: travel_status_handler_def server_error_def respond_def
          js_includes_iff split: option.splits dest!: updated_rows)
qed

text \<open>
  A tracking request binds its carrier to the \<^verbatim>\<open>UPDATE\<close> as it came: for a tracking
  number that is a non-empty string, a carrier that is an object and a database that
  answers, the table after the request is the one the statement with the bound object
  leaves, and the request is answered with 200 when the statement is accepted.
\<close>

lemma tracking_binds_object:
  assumes "tn = Some (JStr t)" "t \<noteq> []" "db_fault e \<noteq> Some 0"
  shows "marriage_tracking_handler e s usr i tn (Some (JObj kvs)) =
     (case update_with_carrier e ''marriage_applications'' (JObj kvs) (trim e t) i
             (marriage_applications s) of
        None \<Rightarrow> server_error s
      | Some rows \<Rightarrow>
          \<lparr>new_store = s\<lparr>marriage_applications := rows\<rparr>,
           reply = \<lparr>http_status = 200, body = CarrierSet (Some (JObj kvs))\<rparr>, sent = []\<rparr>)"
    and "birth_tracking_handler e s usr i tn (Some (JObj kvs)) =
     (case update_with_carrier e ''birth_certificate_applications'' (JObj kvs) (trim e t) i
             (birth_certificate_applications s) of
        None \<Rightarrow> server_error s
      | Some rows \<Rightarrow>
          \<lparr>new_store = s\<lparr>birth_certificate_applications := rows\<rparr>,
           reply = \<lparr>http_status = 200, body = CarrierSet (Some (JObj kvs))\<rparr>, sent = []\<rparr>)"
    and "travel_tracking_handler e s usr i tn (Some (JObj kvs)) =
     (case update_with_carrier e ''travel_pass_applications'' (JObj kvs) (trim e t) i
             (travel_pass_applications s) of
        None \<Rightarrow> server_error s
      | Some rows \<Rightarrow>
          \<lparr>new_store = s\<lparr>travel_pass_applications := rows\<rparr>,
           reply = \<lparr>http_status = 200, body = CarrierSet (Some (JObj kvs))\<rparr>, sent = []\<rparr>)"
  using assms
  by (auto simp: marriage_tracking_handler_def birth_tracking_handler_def
        travel_tracking_handler_def or_null_def split: option.splits)

text \<open>
  From the empty tables: \<open>bob@example.com\<close> submits a marriage application, which is
  stored with the status \<open>pending\<close>; an administrator's tracking request with the
  carrier \<^verbatim>\<open>{"id": 1, "status": null}\<close> is answered with 200 and leaves the application
  with the status \<open>NULL\<close>.
\<close>

lemma tracking_carrier_after_submission:
  "map status (marriage_applications sample_submitted) = [Some ''pending''] \<and>
   map app_id (marriage_applications sample_submitted) = [1] \<and>
   status_invariant sample_submitted \<and>
   http_status (reply (serve sample_env sample_submitted
      (MarriageTracking admin_headers 1 (Some (JStr ''1Z999'')) (Some sample_carrier)))) = 200 \<and>
   map status (marriage_applications (new_store (serve sample_env sample_submitted
      (MarriageTracking admin_headers 1 (Some (JStr ''1Z999'')) (Some sample_carrier))))) = [None] \<and>
   \<not> status_invariant (new_store (serve sample_env sample_submitted
      (MarriageTracking admin_headers 1 (Some (JStr ''1Z999'')) (Some sample_carrier))))"
proof -
  have submitted: "sample_submitted = empty_store\<lparr>marriage_applications :=
      [\<lparr>app_id = 1, user_id = None, user_name = ''bob@example.com'', status = Some ''pending'',
        status_history = None, tracking_number = None, shipping_carrier = None,
        form = sample_marriage_form, created_at = 100, updated_at = 100\<rparr>]\<rparr>"
    by (simp add: sample_submitted_def marriage_create_route_def marriage_create_handler_def
          new_application_def insertId_def middleware_defs sample_defs
          ascii_toLowerCase_def lower_char_def)
  show ?thesis
    unfolding submitted
    by (simp add: sample_defs middleware_defs sample_carrier_def sample_update_with_carrier_def
          marriage_tracking_route_def marriage_tracking_handler_def
          or_null_def update_by_id_def
          status_invariant_def statuses_in_def status_enum_def travel_pass_status_enum_def)
qed

text \<open>
  Claim C8. In every reachable store, the status of each application is a member of its
  type's enum: a submission writes \<open>pending\<close>, and every operation that changes a
  status writes only a value that passed the membership check. The submissions and the
  status routes keep to this (\<open>created_rows_pending\<close>, \<open>created_rows_stored\<close>,
  \<open>status_rows_checked\<close>). The
  tracking routes do not: they test the type of \<open>trackingNumber\<close> and bind \<open>carrier\<close>
  untested, and a carrier that is an object reaches the statement as further
  assignments. On the sample store an administrator's tracking request for marriage
  application 1, with the tracking number \<open>1Z999\<close> and the carrier
  \<^verbatim>\<open>{"id": 1, "status": null}\<close>, is answered with 200, and the application's status is
  \<open>NULL\<close> afterwards, no member of the enum; it was \<open>pending\<close> before. The same request
  does the same to birth certificate 1 and to travel pass 1.
\<close>

theorem tracking_carrier_clears_status:
  "status_invariant sample_store \<and>
   map status (marriage_applications sample_store) = [Some ''pending''] \<and>
   reply (marriage_tracking_route sample_env sample_store admin_headers 1
            (Some (JStr ''1Z999'')) (Some sample_carrier))
     = \<lparr>http_status = 200, body = CarrierSet (Some sample_carrier)\<rparr> \<and>
   map status (marriage_applications (new_store (marriage_tracking_route sample_env sample_store
      admin_headers 1 (Some (JStr ''1Z999'')) (Some sample_carrier)))) = [None] \<and>
   \<not> status_invariant (new_store (marriage_tracking_route sample_env sample_store
      admin_headers 1 (Some (JStr ''1Z999'')) (Some sample_carrier))) \<and>
   map status (birth_certificate_applications (new_store (birth_tracking_route sample_env
      sample_store admin_headers 1 (Some (JStr ''1Z999'')) (Some sample_carrier)))) = [None] \<and>
   map status (select_by_id (travel_pass_applications (new_store (travel_tracking_route
      sample_env sample_store admin_headers 1 (Some (JStr ''1Z999'')) (Some sample_carrier)))) 1)
     = [None]"
  by (simp add: sample_defs middleware_defs sample_carrier_def sample_update_with_carrier_def
        marriage_tracking_route_def marriage_tracking_handler_def
        birth_tracking_route_def birth_tracking_handler_def
        travel_tracking_route_def travel_tracking_handler_def
        or_null_def update_by_id_def select_by_id_def
        status_invariant_def statuses_in_def status_enum_def travel_pass_status_enum_def)

end
